theory Spec2Isabelle
  imports Complex_Main
begin

section \<open>Conventions of the embedding\<close>

text \<open>
  The server of the repository (\<^verbatim>\<open>server/server.js\<close>, with the constants and
  constructors of \<^verbatim>\<open>schema.js\<close> and the collision module \<^verbatim>\<open>worldMap.js\<close>) is
  embedded as pure functions over an explicit state.

  \<^item> JavaScript numbers that hold coordinates, velocities and sizes are modelled as
    \<^typ>\<open>real\<close>: the arithmetic of the source is read as exact arithmetic. Time stamps
    (\<^verbatim>\<open>Date.now()\<close>) and tile indices are \<^typ>\<open>int\<close>. The sequence number of an input
    packet is whatever the client sent, so it is a JavaScript number with its special
    values (\<open>js_number\<close> below).
  \<^item> \<^verbatim>\<open>Date.now()\<close> and the random part of a generated identifier are inputs of
    the handler that reads them (\<open>now\<close>, \<open>newId\<close>).
  \<^item> A JavaScript \<^verbatim>\<open>Map\<close> keyed by identifier is a list in insertion order; the
    key of an entry is the identifier field of the stored object, as it is at every
    \<^verbatim>\<open>set\<close> of the source. The field names of the source are kept, with a one
    letter prefix where the same name occurs in several objects
    (\<open>px\<close>, \<open>py\<close>, \<open>pvx\<close>, \<open>pvy\<close> of a player; \<open>fx\<close>, \<open>fy\<close> of a follower;
    \<open>ox\<close>, \<open>oy\<close> of a display object).
  \<^item> Everything a handler sends or saves is returned as a list of effects, in the
    order of the calls.
  \<^item> Incoming JSON is typed: a field that may be absent is an \<open>option\<close>; a numeric
    field holds the result of the source's \<^verbatim>\<open>Number(...)\<close>, with \<open>None\<close> for a
    value that is not finite.
\<close>

section \<open>schema.js\<close>

definition TICK_RATE :: real where "TICK_RATE = 20"
definition TICK_INTERVAL :: real where "TICK_INTERVAL = 1000 / 20"
definition PLAYER_SPEED :: real where "PLAYER_SPEED = 125"
definition FOLLOWER_SPEED :: real where "FOLLOWER_SPEED = 110"
definition MAX_PLAYERS :: nat where "MAX_PLAYERS = 2"
definition OBJECT_WIDTH :: real where "OBJECT_WIDTH = 48"
definition OBJECT_HEIGHT :: real where "OBJECT_HEIGHT = 72"

definition COLLIDER_TILE_SIZE :: real where "COLLIDER_TILE_SIZE = 16"
definition MAP_WIDTH_TILES :: int where "MAP_WIDTH_TILES = 240"
definition MAP_HEIGHT_TILES :: int where "MAP_HEIGHT_TILES = 180"

text \<open>\<^verbatim>\<open>WORLD_MAP\<close>: a top and a bottom row of \<^verbatim>\<open>#\<close>, and between them rows
  \<^verbatim>\<open>#GG...G#\<close>; \<open>WORLD_MAP row col\<close> is \<^verbatim>\<open>WORLD_MAP[row][col]\<close> for an index inside
  the map.\<close>

definition WORLD_MAP :: "int \<Rightarrow> int \<Rightarrow> char" where
  "WORLD_MAP row col =
     (if row = 0 \<or> row = MAP_HEIGHT_TILES - 1 then CHR ''#''
      else if col = 0 \<or> col = MAP_WIDTH_TILES - 1 then CHR ''#''
      else CHR ''G'')"

definition MAP_ROWS :: int where "MAP_ROWS = MAP_HEIGHT_TILES"
definition MAP_COLS :: int where "MAP_COLS = MAP_WIDTH_TILES"

definition TILE_SIZE :: real where "TILE_SIZE = COLLIDER_TILE_SIZE"
definition WORLD_COLS :: int where "WORLD_COLS = MAP_COLS"
definition WORLD_ROWS :: int where "WORLD_ROWS = MAP_ROWS"
definition WORLD_WIDTH :: real where "WORLD_WIDTH = of_int WORLD_COLS * TILE_SIZE"
definition WORLD_HEIGHT :: real where "WORLD_HEIGHT = of_int WORLD_ROWS * TILE_SIZE"

text \<open>A JavaScript number as \<^verbatim>\<open>Math.max\<close> and \<^verbatim>\<open><\<close> see it: not a number, an infinity,
  or a finite value (read as a real). \<open>Math_max\<close> is \<^verbatim>\<open>Math.max\<close> of two numbers and \<open>js_less\<close>
  is \<^verbatim>\<open><\<close>; every comparison with \<^verbatim>\<open>NaN\<close> is false.\<close>

datatype js_number = NaN | NegInfinity | Num real | PosInfinity

fun Math_max :: "js_number \<Rightarrow> js_number \<Rightarrow> js_number" where
  "Math_max NaN b = NaN"
| "Math_max a NaN = NaN"
| "Math_max PosInfinity b = PosInfinity"
| "Math_max a PosInfinity = PosInfinity"
| "Math_max NegInfinity b = b"
| "Math_max a NegInfinity = a"
| "Math_max (Num a) (Num b) = Num (max a b)"

fun js_less :: "js_number \<Rightarrow> js_number \<Rightarrow> bool" where
  "js_less NaN b = False"
| "js_less a NaN = False"
| "js_less a NegInfinity = False"
| "js_less PosInfinity b = False"
| "js_less NegInfinity b = True"
| "js_less a PosInfinity = True"
| "js_less (Num a) (Num b) = (a < b)"

text \<open>An input packet: the key state and the sequence number. \<open>seq\<close> is the number that
  \<^verbatim>\<open>Math.max\<close> makes of \<^verbatim>\<open>input.seq\<close>: \<open>NaN\<close> when the field is absent or not numeric. The
  packet has a \<^verbatim>\<open>keys\<close> object, as the packet of the specification has; a truthy
  \<^verbatim>\<open>data.input\<close> without one makes the tick that applies it throw, which ends the
  process, and is not a value of this type.\<close>

record key_state =
  key_up :: bool
  key_down :: bool
  key_left :: bool
  key_right :: bool
  key_w :: bool
  key_a :: bool
  key_s :: bool
  key_d :: bool

record input =
  keys :: key_state
  seq :: js_number
  timestamp :: int

record player =
  pid :: string
  pname :: string
  character :: string
  px :: real
  py :: real
  pvx :: real
  pvy :: real
  lastInputSeq :: js_number
  lastInput :: "input option"
  connected :: bool
  lastUpdate :: int
  hugging :: bool
  hugEndTime :: int
  sitting :: bool

record follower =
  fid :: string
  sprite :: string
  slot :: nat
  fx :: real
  fy :: real
  fvx :: real
  fvy :: real
  targetPlayerId :: "string option"

record display_object =
  oid :: string
  ox :: real
  oy :: real
  owidth :: real
  oheight :: real
  imageSrc :: string
  otext :: string
  createdAt :: int
  updatedAt :: int

text \<open>A rectangle of the collision module (\<^verbatim>\<open>staticColliders\<close>, \<^verbatim>\<open>objectColliders\<close>).\<close>

record collider =
  rid :: string
  rleft :: real
  rtop :: real
  rwidth :: real
  rheight :: real

text \<open>The state of the server: the fields of \<^verbatim>\<open>gameState\<close> (\<^verbatim>\<open>createGameState\<close>) and the
  two mutable registries of \<^verbatim>\<open>worldMap.js\<close>.\<close>

record state =
  players :: "player list"
  objects :: "display_object list"
  followers :: "follower list"
  tick :: nat
  lastTick :: int
  dynamicColliders :: "(int \<times> int) list"
  objectColliders :: "collider list"

definition createPlayerState :: "string \<Rightarrow> string \<Rightarrow> string \<Rightarrow> int \<Rightarrow> player" where
  "createPlayerState playerId nm ch now =
     \<lparr> pid = playerId, pname = nm, character = ch, px = 0, py = 0, pvx = 0, pvy = 0,
       lastInputSeq = Num 0, lastInput = None, connected = True, lastUpdate = now,
       hugging = False, hugEndTime = 0, sitting = False \<rparr>"

definition createFollowerState :: "string \<Rightarrow> string \<Rightarrow> follower" where
  "createFollowerState i spriteKey =
     \<lparr> fid = i, sprite = spriteKey, slot = 0, fx = 0, fy = 0, fvx = 0, fvy = 0,
       targetPlayerId = None \<rparr>"

definition createGameState :: "int \<Rightarrow> state" where
  "createGameState now =
     \<lparr> players = [], objects = [], followers = [], tick = 0, lastTick = now,
       dynamicColliders = [], objectColliders = [] \<rparr>"

section \<open>worldMap.js: the collision oracle\<close>

definition BENCH_X :: real where "BENCH_X = 2760"
definition BENCH_Y :: real where "BENCH_Y = 1511"
definition BENCH_SCALE :: real where "BENCH_SCALE = 2.5"
definition BENCH_WIDTH :: real where "BENCH_WIDTH = 64 * BENCH_SCALE"
definition BENCH_HEIGHT :: real where "BENCH_HEIGHT = 32 * BENCH_SCALE"
definition BENCH_COLLISION_SCALE :: real where "BENCH_COLLISION_SCALE = 0.4"

definition staticColliders :: "collider list" where
  "staticColliders =
     [\<lparr> rid = ''bench'',
        rleft = BENCH_X - (BENCH_WIDTH * BENCH_COLLISION_SCALE) / 2,
        rtop = BENCH_Y - BENCH_HEIGHT * BENCH_COLLISION_SCALE - 5,
        rwidth = BENCH_WIDTH * BENCH_COLLISION_SCALE,
        rheight = BENCH_HEIGHT * BENCH_COLLISION_SCALE \<rparr>]"

definition toTileCoords :: "real \<Rightarrow> real \<Rightarrow> int \<times> int" where
  "toTileCoords worldX worldY =
     (\<lfloor>worldX / COLLIDER_TILE_SIZE\<rfloor>, \<lfloor>worldY / COLLIDER_TILE_SIZE\<rfloor>)"

text \<open>The key \<^verbatim>\<open>`${col},${row}`\<close> of a tile is the pair itself.\<close>

definition hasColliderTile :: "state \<Rightarrow> int \<Rightarrow> int \<Rightarrow> bool" where
  "hasColliderTile s col row = List.member (dynamicColliders s) (col, row)"

definition addColliderTile :: "state \<Rightarrow> int \<Rightarrow> int \<Rightarrow> state \<times> bool" where
  "addColliderTile s col row =
     (if col < 0 \<or> col \<ge> MAP_COLS \<or> row < 0 \<or> row \<ge> MAP_ROWS then (s, False)
      else (s\<lparr>dynamicColliders :=
                (if List.member (dynamicColliders s) (col, row) then dynamicColliders s
                 else dynamicColliders s @ [(col, row)])\<rparr>, True))"

definition removeColliderTile :: "state \<Rightarrow> int \<Rightarrow> int \<Rightarrow> state \<times> bool" where
  "removeColliderTile s col row =
     (s\<lparr>dynamicColliders := removeAll (col, row) (dynamicColliders s)\<rparr>,
      List.member (dynamicColliders s) (col, row))"

definition getColliders :: "state \<Rightarrow> (int \<times> int) list" where
  "getColliders s = dynamicColliders s"

definition getTileAt :: "real \<Rightarrow> real \<Rightarrow> char option" where
  "getTileAt worldX worldY =
     (case toTileCoords worldX worldY of (col, row) \<Rightarrow>
        if row < 0 \<or> row \<ge> MAP_ROWS \<or> col < 0 \<or> col \<ge> MAP_COLS then None
        else Some (WORLD_MAP row col))"

text \<open>\<^verbatim>\<open>TILE_DEFINITIONS[tileChar]?.collidable\<close>: both defined tiles are not collidable,
  and an undefined tile has no definition.\<close>

definition tile_collidable :: "char \<Rightarrow> bool" where
  "tile_collidable c =
     (if c = CHR ''#'' then False else if c = CHR ''G'' then False else False)"

definition in_collider :: "real \<Rightarrow> real \<Rightarrow> collider \<Rightarrow> bool" where
  "in_collider worldX worldY c =
     (worldX \<ge> rleft c \<and> worldX \<le> rleft c + rwidth c \<and>
      worldY \<ge> rtop c \<and> worldY \<le> rtop c + rheight c)"

definition isCollidable :: "state \<Rightarrow> real \<Rightarrow> real \<Rightarrow> bool" where
  "isCollidable s worldX worldY =
     (case toTileCoords worldX worldY of (col, row) \<Rightarrow>
        if hasColliderTile s col row then True
        else (case getTileAt worldX worldY of
                None \<Rightarrow> False
              | Some tileChar \<Rightarrow>
                  if tile_collidable tileChar then True
                  else if list_ex (in_collider worldX worldY) staticColliders then True
                  else if list_ex (in_collider worldX worldY) (objectColliders s) then True
                  else False))"


text \<open>\<^verbatim>\<open>Map\<close> operations on a list keyed by an identifier field: \<^verbatim>\<open>get\<close>, \<^verbatim>\<open>has\<close>,
  \<^verbatim>\<open>set\<close> (an existing key keeps its place, a new key goes last) and \<^verbatim>\<open>delete\<close>.\<close>

definition Map_get :: "('a \<Rightarrow> string) \<Rightarrow> 'a list \<Rightarrow> string \<Rightarrow> 'a option" where
  "Map_get key xs k = find (\<lambda>v. key v = k) xs"

definition Map_has :: "('a \<Rightarrow> string) \<Rightarrow> 'a list \<Rightarrow> string \<Rightarrow> bool" where
  "Map_has key xs k = list_ex (\<lambda>v. key v = k) xs"

primrec Map_set :: "('a \<Rightarrow> string) \<Rightarrow> 'a list \<Rightarrow> 'a \<Rightarrow> 'a list" where
  "Map_set key [] v = [v]"
| "Map_set key (x # xs) v = (if key x = key v then v # xs else x # Map_set key xs v)"

definition Map_delete :: "('a \<Rightarrow> string) \<Rightarrow> 'a list \<Rightarrow> string \<Rightarrow> 'a list" where
  "Map_delete key xs k = filter (\<lambda>v. key v \<noteq> k) xs"

definition addObjectCollider :: "state \<Rightarrow> display_object \<Rightarrow> state" where
  "addObjectCollider s object =
     (if oid object = [] then s
      else
        let width = owidth object;
            height = oheight object;
            centerX = ox object;
            baseY = oy object;
            collisionScale = 0.6;
            collisionWidth = width * collisionScale;
            collisionHeight = height * collisionScale
        in s\<lparr>objectColliders :=
               Map_set rid (objectColliders s)
                 \<lparr> rid = oid object,
                   rleft = centerX - collisionWidth / 2,
                   rtop = baseY - collisionHeight,
                   rwidth = collisionWidth,
                   rheight = collisionHeight \<rparr>\<rparr>)"

definition removeObjectCollider :: "state \<Rightarrow> string \<Rightarrow> state" where
  "removeObjectCollider s i = s\<lparr>objectColliders := Map_delete rid (objectColliders s) i\<rparr>"

definition clearObjectColliders :: "state \<Rightarrow> state" where
  "clearObjectColliders s = s\<lparr>objectColliders := []\<rparr>"

text \<open>\<^verbatim>\<open>setColliders\<close>: the saved tiles that are integers inside the map, in order, each once.\<close>

definition isInteger :: "real \<Rightarrow> bool" where
  "isInteger r = (of_int \<lfloor>r\<rfloor> = r)"

definition setColliders :: "state \<Rightarrow> (real \<times> real) list \<Rightarrow> state" where
  "setColliders s colliders =
     s\<lparr>dynamicColliders :=
         fold (\<lambda>t acc. if List.member acc t then acc else acc @ [t])
           (map (\<lambda>(col, row). (\<lfloor>col\<rfloor>, \<lfloor>row\<rfloor>))
             (filter (\<lambda>(col, row). isInteger col \<and> isInteger row \<and>
                        col \<ge> 0 \<and> col < of_int MAP_COLS \<and> row \<ge> 0 \<and> row < of_int MAP_ROWS)
                colliders))
           []\<rparr>"

section \<open>server.js: geometry helpers\<close>

definition SPAWN_POINTS :: "(real \<times> real) list" where
  "SPAWN_POINTS = [(20, 10), (21, 10)]"

definition FOLLOWER_TEMPLATES :: "(string \<times> string) list" where
  "FOLLOWER_TEMPLATES = [(''follower_buggy'', ''buggy'')]"

definition clamp_x :: "real \<Rightarrow> real" where
  "clamp_x v = max 0 (min WORLD_WIDTH v)"

definition clamp_y :: "real \<Rightarrow> real" where
  "clamp_y v = max 0 (min WORLD_HEIGHT v)"

text \<open>\<^verbatim>\<open>clampToWorld(entity)\<close>, called on followers only.\<close>

definition clampToWorld :: "follower \<Rightarrow> follower" where
  "clampToWorld entity = entity\<lparr>fx := clamp_x (fx entity), fy := clamp_y (fy entity)\<rparr>"

record bounds =
  b_left :: real
  b_right :: real
  b_top :: real
  b_bottom :: real
  b_width :: real
  b_height :: real

text \<open>The width and the height of a stored object are finite numbers
  (\<^verbatim>\<open>normalizeObjectData\<close> has replaced any other value by the default), so the
  \<^verbatim>\<open>Number.isFinite\<close> tests of \<^verbatim>\<open>getObjectBounds\<close> take their first branch.\<close>

definition getObjectBounds :: "display_object \<Rightarrow> bounds" where
  "getObjectBounds object =
     (let width = owidth object; height = oheight object
      in \<lparr> b_left = ox object - width / 2,
           b_right = ox object + width / 2,
           b_top = oy object - height,
           b_bottom = oy object,
           b_width = width,
           b_height = height \<rparr>)"

definition objectsOverlap :: "display_object \<Rightarrow> display_object \<Rightarrow> bool" where
  "objectsOverlap objectA objectB =
     (let a = getObjectBounds objectA; b = getObjectBounds objectB
      in b_left a < b_right b \<and> b_right a > b_left b \<and>
         b_top a < b_bottom b \<and> b_bottom a > b_top b)"

definition pointInObject :: "real \<Rightarrow> real \<Rightarrow> display_object \<Rightarrow> bool" where
  "pointInObject x y object =
     (let b = getObjectBounds object
      in x \<ge> b_left b \<and> x \<le> b_right b \<and> y \<ge> b_top b \<and> y \<le> b_bottom b)"

text \<open>The argument of \<^verbatim>\<open>normalizeObjectData\<close>. \<open>raw_x\<close>, \<open>raw_y\<close>, \<open>raw_col\<close> and
  \<open>raw_row\<close> hold \<^verbatim>\<open>Number(raw.x)\<close> and so on when that is finite; \<open>raw_width\<close> and
  \<open>raw_height\<close> hold the field when it is a finite number; \<open>raw_createdAt\<close> and
  \<open>raw_updatedAt\<close> hold the field when it is truthy.\<close>

record raw_object =
  raw_id :: "string option"
  raw_x :: "real option"
  raw_y :: "real option"
  raw_col :: "real option"
  raw_row :: "real option"
  raw_imageSrc :: "string option"
  raw_text :: "string option"
  raw_width :: "real option"
  raw_height :: "real option"
  raw_createdAt :: "int option"
  raw_updatedAt :: "int option"

definition normalizeObjectData :: "raw_object \<Rightarrow> string \<Rightarrow> int \<Rightarrow> display_object option" where
  "normalizeObjectData raw newId now =
     (let i = (case raw_id raw of Some r \<Rightarrow> r | None \<Rightarrow> newId);
          xy = (if raw_x raw = None \<or> raw_y raw = None then
                  (case (raw_col raw, raw_row raw) of
                     (Some col, Some row) \<Rightarrow>
                       (Some ((col + 0.5) * TILE_SIZE), Some ((row + 1) * TILE_SIZE))
                   | _ \<Rightarrow> (raw_x raw, raw_y raw))
                else (raw_x raw, raw_y raw))
      in case xy of
           (Some x, Some y) \<Rightarrow>
             Some \<lparr> oid = i, ox = x, oy = y,
                    owidth = (case raw_width raw of Some v \<Rightarrow> v | None \<Rightarrow> OBJECT_WIDTH),
                    oheight = (case raw_height raw of Some v \<Rightarrow> v | None \<Rightarrow> OBJECT_HEIGHT),
                    imageSrc = (case raw_imageSrc raw of Some v \<Rightarrow> v | None \<Rightarrow> []),
                    otext = (case raw_text raw of Some v \<Rightarrow> v | None \<Rightarrow> []),
                    createdAt = (case raw_createdAt raw of Some v \<Rightarrow> v | None \<Rightarrow> now),
                    updatedAt = (case raw_updatedAt raw of Some v \<Rightarrow> v | None \<Rightarrow> now) \<rparr>
         | _ \<Rightarrow> None)"

section \<open>server.js: movement\<close>

definition PLAYER_RADIUS :: real where "PLAYER_RADIUS = 10"

definition checkPoints :: "real \<Rightarrow> real \<Rightarrow> (real \<times> real) list" where
  "checkPoints x y =
     [(x, y),
      (x - PLAYER_RADIUS, y),
      (x + PLAYER_RADIUS, y),
      (x, y - PLAYER_RADIUS),
      (x, y + PLAYER_RADIUS * 0.01),
      (x - PLAYER_RADIUS * 0.7, y - PLAYER_RADIUS * 0.4),
      (x + PLAYER_RADIUS * 0.7, y - PLAYER_RADIUS * 0.4),
      (x - PLAYER_RADIUS * 0.7, y + PLAYER_RADIUS * 0.01),
      (x + PLAYER_RADIUS * 0.7, y + PLAYER_RADIUS * 0.01)]"

definition canMoveTo :: "state \<Rightarrow> real \<Rightarrow> real \<Rightarrow> bool" where
  "canMoveTo s x y = list_all (\<lambda>(qx, qy). \<not> isCollidable s qx qy) (checkPoints x y)"

text \<open>The velocity that \<^verbatim>\<open>processPlayerInput\<close> builds from the key state, before the
  collision tests: the four key tests in the order of the source, then the
  normalisation of a diagonal.\<close>

definition input_velocity :: "key_state \<Rightarrow> real \<times> real" where
  "input_velocity k =
     (let vy1 = (if key_up k \<or> key_w k then 0 - PLAYER_SPEED else 0);
          vy2 = (if key_down k \<or> key_s k then vy1 + PLAYER_SPEED else vy1);
          vx1 = (if key_left k \<or> key_a k then 0 - PLAYER_SPEED else 0);
          vx2 = (if key_right k \<or> key_d k then vx1 + PLAYER_SPEED else vx1)
      in if vx2 \<noteq> 0 \<and> vy2 \<noteq> 0 then
           (let len = sqrt (vx2 * vx2 + vy2 * vy2)
            in ((vx2 / len) * PLAYER_SPEED, (vy2 / len) * PLAYER_SPEED))
         else (vx2, vy2))"

definition processPlayerInput :: "state \<Rightarrow> player \<Rightarrow> input \<Rightarrow> int \<Rightarrow> player" where
  "processPlayerInput s p inp now =
     (let deltaTime = TICK_INTERVAL / 1000;
          (vx, vy) = input_velocity (keys inp);
          newX = px p + vx * deltaTime;
          newY = py p + vy * deltaTime;
          finalX = (if vx \<noteq> 0 \<and> canMoveTo s newX (py p) then newX else px p);
          vx' = (if vx \<noteq> 0 \<and> \<not> canMoveTo s newX (py p) then 0 else vx);
          finalY = (if vy \<noteq> 0 \<and> canMoveTo s finalX newY then newY else py p);
          vy' = (if vy \<noteq> 0 \<and> \<not> canMoveTo s finalX newY then 0 else vy)
      in p\<lparr> pvx := vx', pvy := vy',
            px := max 0 (min WORLD_WIDTH finalX),
            py := max 0 (min WORLD_HEIGHT finalY),
            lastInputSeq := Math_max (lastInputSeq p) (seq inp),
            lastUpdate := now \<rparr>)"


section \<open>server.js: followers\<close>

definition getConnectedPlayers :: "state \<Rightarrow> player list" where
  "getConnectedPlayers s = filter connected (players s)"

definition assignFollowersToPlayers :: "state \<Rightarrow> state" where
  "assignFollowersToPlayers s =
     (let connectedPlayers = getConnectedPlayers s
      in if length connectedPlayers = 0 then
           s\<lparr>followers :=
               map (\<lambda>f. f\<lparr>targetPlayerId := None, fvx := 0, fvy := 0\<rparr>) (followers s)\<rparr>
         else
           let playerIds = map pid connectedPlayers
           in s\<lparr>followers :=
                  map (\<lambda>(index, f).
                         let targetId = playerIds ! (index mod length playerIds);
                             f1 = (if targetPlayerId f \<noteq> Some targetId then
                                     (let f2 = f\<lparr>targetPlayerId := Some targetId\<rparr>
                                      in case Map_get pid (players s) targetId of
                                           Some targetPlayer \<Rightarrow>
                                             f2\<lparr>fx := px targetPlayer, fy := py targetPlayer\<rparr>
                                         | None \<Rightarrow> f2)
                                   else f)
                         in f1\<lparr>slot := index\<rparr>)
                    (enumerate 0 (followers s))\<rparr>)"

definition hypot :: "real \<Rightarrow> real \<Rightarrow> real" where
  "hypot u v = sqrt (u * u + v * v)"

definition follower_stop :: "follower \<Rightarrow> follower" where
  "follower_stop f = f\<lparr>fvx := 0, fvy := 0\<rparr>"

text \<open>The body of the \<^verbatim>\<open>forEach\<close> of \<^verbatim>\<open>updateFollowers\<close>, for one follower.\<close>

definition updateFollower :: "state \<Rightarrow> real \<Rightarrow> follower \<Rightarrow> follower" where
  "updateFollower s deltaSeconds f =
     (case targetPlayerId f of
        None \<Rightarrow> follower_stop f
      | Some t \<Rightarrow>
          if t = [] then follower_stop f
          else (case Map_get pid (players s) t of
                  None \<Rightarrow> follower_stop (f\<lparr>targetPlayerId := None\<rparr>)
                | Some target \<Rightarrow>
                    if \<not> connected target then follower_stop (f\<lparr>targetPlayerId := None\<rparr>)
                    else
                      let distanceMultiplier = (if sitting target then 4 else 1.3);
                          baseOffset = TILE_SIZE * 1.8 * distanceMultiplier;
                          trailingFactor = 0.25;
                          angle = (if slot f mod 2 = 0 then pi / 6 else - pi / 6);
                          targetSpeed = hypot (pvx target) (pvy target);
                          offsetX = - cos angle * baseOffset - pvx target * trailingFactor;
                          offsetY = - sin angle * baseOffset - pvy target * trailingFactor;
                          targetX = px target + offsetX;
                          targetY = py target + offsetY;
                          dx = targetX - fx f;
                          dy = targetY - fy f;
                          distance = hypot dx dy;
                          desiredDistance = TILE_SIZE * 0.8 * distanceMultiplier;
                          speed = max 60 (FOLLOWER_SPEED - targetSpeed * 0.15);
                          maxStep = speed * deltaSeconds
                      in if distance \<le> desiredDistance then
                           (let vx1 = fvx f * 0.4; vy1 = fvy f * 0.4
                            in f\<lparr>fvx := (if \<bar>vx1\<bar> < 2 then 0 else vx1),
                                 fvy := (if \<bar>vy1\<bar> < 2 then 0 else vy1)\<rparr>)
                         else if distance > 0 then
                           (let move = min maxStep (max 0 (distance - desiredDistance));
                                ux = dx / distance;
                                uy = dy / distance;
                                f1 = f\<lparr>fx := fx f + ux * move, fy := fy f + uy * move,
                                       fvx := ux * speed, fvy := uy * speed\<rparr>;
                                f2 = (if move < 1.5 then follower_stop f1 else f1)
                            in clampToWorld f2)
                         else f))"

definition updateFollowers :: "real \<Rightarrow> state \<Rightarrow> state" where
  "updateFollowers deltaSeconds s =
     s\<lparr>followers := map (updateFollower s deltaSeconds) (followers s)\<rparr>"

section \<open>server.js: connections and effects\<close>

text \<open>A connection (\<^verbatim>\<open>client\<close>): its identity among the sockets of the server, the
  \<^verbatim>\<open>playerId\<close> that \<^verbatim>\<open>handleJoin\<close> stores on it, and whether its \<^verbatim>\<open>readyState\<close> is
  \<^verbatim>\<open>OPEN\<close>.\<close>

record client =
  conn :: nat
  playerId :: "string option"
  isOpen :: bool

text \<open>The messages of the server, named as in \<^verbatim>\<open>MESSAGE_TYPES\<close>. A player in a
  message is the stored record; the serialisation of the source sends a selection of its
  fields.\<close>

datatype server_msg =
    WELCOME string nat "player list" "follower list" "display_object list" "(int \<times> int) list"
  | STATE_UPDATE nat int "player list" "follower list" "display_object list" "(int \<times> int) list"
  | PLAYER_JOINED player
  | PLAYER_LEFT string
  | COLLIDER_PLACED "int \<times> int"
  | COLLIDER_REMOVED "int \<times> int"
  | OBJECT_PLACED display_object
  | OBJECT_REMOVED string
  | HUG_STARTED string string
  | HUG_ENDED string
  | ERROR string

text \<open>What a handler does to the outside: \<open>Send\<close> is \<^verbatim>\<open>client.send\<close> on one
  connection, \<open>BroadcastAll\<close> sends to every open connection, \<open>BroadcastToOthers\<close> to
  every open connection but the sender, \<open>BroadcastJoined\<close> (the loop of
  \<^verbatim>\<open>broadcastState\<close>) to every open connection that has a \<^verbatim>\<open>playerId\<close>; the three
  saves are the calls of the persistence gateway.\<close>

datatype effect =
    Send nat server_msg
  | BroadcastAll server_msg
  | BroadcastToOthers nat server_msg
  | BroadcastJoined server_msg
  | SaveState "player list"
  | SaveColliders "(int \<times> int) list"
  | SaveObjects "display_object list"

definition sendError :: "client \<Rightarrow> string \<Rightarrow> effect list" where
  "sendError c e = (if isOpen c then [Send (conn c) (ERROR e)] else [])"

text \<open>\<^verbatim>\<open>Math.round(v * 100) / 100\<close>.\<close>

definition round2 :: "real \<Rightarrow> real" where
  "round2 v = of_int \<lfloor>v * 100 + 1 / 2\<rfloor> / 100"

definition broadcastState :: "state \<Rightarrow> int \<Rightarrow> effect list" where
  "broadcastState s now =
     [BroadcastJoined
        (STATE_UPDATE (tick s) now
           (map (\<lambda>p. p\<lparr>px := round2 (px p), py := round2 (py p)\<rparr>)
              (filter connected (players s)))
           (followers s) (objects s) (getColliders s))]"

definition broadcastHugStarted :: "string \<Rightarrow> string \<Rightarrow> effect list" where
  "broadcastHugStarted playerId1 playerId2 = [BroadcastAll (HUG_STARTED playerId1 playerId2)]"

definition broadcastHugEnded :: "string \<Rightarrow> effect list" where
  "broadcastHugEnded i = [BroadcastAll (HUG_ENDED i)]"

section \<open>server.js: the tick\<close>

definition hug_expires :: "int \<Rightarrow> player \<Rightarrow> bool" where
  "hug_expires now p = (connected p \<and> hugging p \<and> hugEndTime p > 0 \<and> now \<ge> hugEndTime p)"

text \<open>The body of the first loop of \<^verbatim>\<open>gameTick\<close>, for one player.\<close>

definition endHug :: "int \<Rightarrow> player \<Rightarrow> player" where
  "endHug now p = (if hug_expires now p then p\<lparr>hugging := False, hugEndTime := 0\<rparr> else p)"

text \<open>The body of the second loop of \<^verbatim>\<open>gameTick\<close>, for one player.\<close>

definition tickPlayer :: "state \<Rightarrow> int \<Rightarrow> player \<Rightarrow> player" where
  "tickPlayer s now p =
     (if connected p then
        (if hugging p \<or> sitting p then p\<lparr>pvx := 0, pvy := 0\<rparr>
         else (case lastInput p of
                 Some inp \<Rightarrow> processPlayerInput s p inp now
               | None \<Rightarrow> p\<lparr>pvx := 0, pvy := 0\<rparr>))
      else p)"

definition gameTick :: "int \<Rightarrow> state \<Rightarrow> state \<times> effect list" where
  "gameTick now s =
     (let deltaTime = real_of_int (now - lastTick s);
          clampedDelta = min (max deltaTime TICK_INTERVAL) (TICK_INTERVAL * 4);
          deltaSeconds = clampedDelta / 1000;
          ended = concat (map (\<lambda>p. if hug_expires now p then broadcastHugEnded (pid p) else [])
                            (players s));
          s1 = s\<lparr>players := map (endHug now) (players s)\<rparr>;
          s2 = s1\<lparr>players := map (tickPlayer s1 now) (players s1)\<rparr>;
          s3 = updateFollowers deltaSeconds s2;
          s4 = s3\<lparr>tick := tick s3 + 1, lastTick := now\<rparr>
      in (s4, ended @ broadcastState s4 now))"


section \<open>server.js: the message handlers\<close>

text \<open>\<open>Map_update key xs k f\<close> is the in-place mutation \<open>f\<close> of the object that
  \<^verbatim>\<open>get(k)\<close> returns.\<close>

primrec Map_update :: "('a \<Rightarrow> string) \<Rightarrow> 'a list \<Rightarrow> string \<Rightarrow> ('a \<Rightarrow> 'a) \<Rightarrow> 'a list" where
  "Map_update key [] k f = []"
| "Map_update key (x # xs) k f = (if key x = k then f x # xs else x # Map_update key xs k f)"

text \<open>\<^verbatim>\<open>client.playerId\<close> is truthy.\<close>

definition authenticated :: "client \<Rightarrow> bool" where
  "authenticated c = (case playerId c of None \<Rightarrow> False | Some k \<Rightarrow> k \<noteq> [])"

text \<open>\<^verbatim>\<open>gameState.players.get(client.playerId)\<close>.\<close>

definition client_player :: "state \<Rightarrow> client \<Rightarrow> player option" where
  "client_player s c =
     (case playerId c of None \<Rightarrow> None | Some k \<Rightarrow> Map_get pid (players s) k)"

record join_data =
  j_name :: "string option"
  j_character :: "string option"
  j_playerId :: "string option"

text \<open>\<^verbatim>\<open>v || d\<close> for a string that may be absent.\<close>

definition or_else :: "string option \<Rightarrow> string \<Rightarrow> string" where
  "or_else v d = (case v of None \<Rightarrow> d | Some t \<Rightarrow> if t = [] then d else t)"

definition handleJoin ::
  "state \<Rightarrow> client \<Rightarrow> join_data \<Rightarrow> string \<Rightarrow> int \<Rightarrow> state \<times> client \<times> effect list" where
  "handleJoin s c d newId now =
     (let validCharacter =
            (if j_character d = Some ''1'' then ''1''
             else if j_character d = Some ''2'' then ''2'' else ''1'');
          connectedCount = length (filter connected (players s))
      in if connectedCount \<ge> MAX_PLAYERS then
           (s, c, sendError c ''Room is full. Maximum 2 players allowed.'')
         else
           let playerId1 =
                 (case j_playerId d of
                    None \<Rightarrow> newId
                  | Some i \<Rightarrow> if i = [] \<or> \<not> Map_has pid (players s) i then newId else i);
               player =
                 (case Map_get pid (players s) playerId1 of
                    None \<Rightarrow>
                      (let existingPlayers = filter connected (players s);
                           spawnIndex = min (length existingPlayers) (length SPAWN_POINTS - 1);
                           spawn = SPAWN_POINTS ! spawnIndex
                       in (createPlayerState playerId1 (or_else (j_name d) ''Player'')
                             validCharacter now)
                            \<lparr> px := fst spawn * TILE_SIZE + TILE_SIZE / 2,
                              py := (snd spawn + 1) * TILE_SIZE \<rparr>)
                  | Some p \<Rightarrow>
                      p\<lparr> connected := True,
                         pname := or_else (j_name d) (pname p),
                         character := validCharacter \<rparr>);
               s1 = s\<lparr>players := Map_set pid (players s) player\<rparr>;
               c1 = c\<lparr>playerId := Some playerId1\<rparr>;
               s2 = assignFollowersToPlayers s1
           in (s2, c1,
               [Send (conn c)
                  (WELCOME playerId1 (tick s2) (filter connected (players s2))
                     (followers s2) (objects s2) (getColliders s2)),
                BroadcastToOthers (conn c) (PLAYER_JOINED player),
                SaveState (players s2)]))"

text \<open>\<^verbatim>\<open>handleInput\<close>; \<open>inp\<close> is \<^verbatim>\<open>data.input\<close>, \<open>None\<close> when it is absent.\<close>

definition handleInput :: "state \<Rightarrow> client \<Rightarrow> input option \<Rightarrow> state \<times> effect list" where
  "handleInput s c inp =
     (if \<not> authenticated c then (s, sendError c ''Not authenticated'')
      else (case client_player s c of
              None \<Rightarrow> (s, sendError c ''Player not found'')
            | Some player \<Rightarrow>
                if \<not> connected player then (s, sendError c ''Player not found'')
                else
                  (s\<lparr>players := Map_update pid (players s) (pid player)
                                   (\<lambda>p. p\<lparr>lastInput := inp\<rparr>)\<rparr>,
                   (if tick s mod 10 = 0
                    then [SaveState (Map_update pid (players s) (pid player)
                                       (\<lambda>p. p\<lparr>lastInput := inp\<rparr>))]
                    else []))))"

text \<open>\<^verbatim>\<open>handlePlaceCollider\<close> and \<^verbatim>\<open>handleRemoveCollider\<close>; \<open>col\<close> and \<open>row\<close> are
  \<^verbatim>\<open>Number(data?.col)\<close> and \<^verbatim>\<open>Number(data?.row)\<close>.\<close>

definition isIntegerOpt :: "real option \<Rightarrow> bool" where
  "isIntegerOpt v = (case v of None \<Rightarrow> False | Some r \<Rightarrow> isInteger r)"

definition handlePlaceCollider ::
  "state \<Rightarrow> client \<Rightarrow> real option \<Rightarrow> real option \<Rightarrow> state \<times> effect list" where
  "handlePlaceCollider s c col row =
     (if \<not> authenticated c then (s, sendError c ''Not authenticated'')
      else if \<not> isIntegerOpt col \<or> \<not> isIntegerOpt row then
        (s, sendError c ''Invalid collider coordinates'')
      else
        (case addColliderTile s \<lfloor>the col\<rfloor> \<lfloor>the row\<rfloor> of (s1, added) \<Rightarrow>
           if \<not> added then (s1, [])
           else (s1, [BroadcastAll (COLLIDER_PLACED (\<lfloor>the col\<rfloor>, \<lfloor>the row\<rfloor>)),
                      SaveColliders (getColliders s1)])))"

definition handleRemoveCollider ::
  "state \<Rightarrow> client \<Rightarrow> real option \<Rightarrow> real option \<Rightarrow> state \<times> effect list" where
  "handleRemoveCollider s c col row =
     (if \<not> authenticated c then (s, sendError c ''Not authenticated'')
      else if \<not> isIntegerOpt col \<or> \<not> isIntegerOpt row then
        (s, sendError c ''Invalid collider coordinates'')
      else
        (case removeColliderTile s \<lfloor>the col\<rfloor> \<lfloor>the row\<rfloor> of (s1, removed) \<Rightarrow>
           if \<not> removed then (s1, [])
           else (s1, [BroadcastAll (COLLIDER_REMOVED (\<lfloor>the col\<rfloor>, \<lfloor>the row\<rfloor>)),
                      SaveColliders (getColliders s1)])))"

text \<open>\<^verbatim>\<open>handlePlaceObject\<close>. The handler passes to \<^verbatim>\<open>normalizeObjectData\<close> an object
  literal that has no \<^verbatim>\<open>id\<close>, \<^verbatim>\<open>createdAt\<close> or \<^verbatim>\<open>updatedAt\<close>.\<close>

definition handlePlaceObject ::
  "state \<Rightarrow> client \<Rightarrow> raw_object \<Rightarrow> string \<Rightarrow> int \<Rightarrow> state \<times> effect list" where
  "handlePlaceObject s c d newId now =
     (if \<not> authenticated c then (s, sendError c ''Not authenticated'')
      else
        (case normalizeObjectData
                (d\<lparr>raw_id := None, raw_createdAt := None, raw_updatedAt := None\<rparr>) newId now of
           None \<Rightarrow> (s, sendError c ''Invalid object coordinates'')
         | Some objectData \<Rightarrow>
             if ox objectData < 0 \<or> ox objectData > WORLD_WIDTH \<or>
                oy objectData < 0 \<or> oy objectData > WORLD_HEIGHT then
               (s, sendError c ''Object coordinates out of bounds'')
             else
               let overlaps = list_ex (\<lambda>existing. objectsOverlap existing objectData) (objects s)
               in if overlaps then (s, [])
                  else
                    let objectData1 = objectData\<lparr>createdAt := now, updatedAt := now\<rparr>;
                        s1 = s\<lparr>objects := Map_set oid (objects s) objectData1\<rparr>;
                        s2 = addObjectCollider s1 objectData1
                    in (s2, [BroadcastAll (OBJECT_PLACED objectData1),
                             SaveObjects (objects s2)])))"

record remove_data =
  rm_id :: "string option"
  rm_x :: "real option"
  rm_y :: "real option"
  rm_col :: "real option"
  rm_row :: "real option"

definition handleRemoveObject :: "state \<Rightarrow> client \<Rightarrow> remove_data \<Rightarrow> state \<times> effect list" where
  "handleRemoveObject s c d =
     (if \<not> authenticated c then (s, sendError c ''Not authenticated'')
      else
        let object0 = (case rm_id d of
                         None \<Rightarrow> None
                       | Some i \<Rightarrow> if i = [] then None else Map_get oid (objects s) i);
            object1 = (case (object0, rm_x d, rm_y d) of
                         (None, Some x, Some y) \<Rightarrow> find (pointInObject x y) (objects s)
                       | _ \<Rightarrow> object0);
            object2 = (if object1 = None \<and> isIntegerOpt (rm_col d) \<and> isIntegerOpt (rm_row d)
                       then find (pointInObject ((the (rm_col d) + 0.5) * TILE_SIZE)
                                                ((the (rm_row d) + 1) * TILE_SIZE)) (objects s)
                       else object1)
        in case object2 of
             None \<Rightarrow> (s, [])
           | Some object \<Rightarrow>
               let s1 = s\<lparr>objects := Map_delete oid (objects s) (oid object)\<rparr>;
                   s2 = removeObjectCollider s1 (oid object)
               in (s2, [BroadcastAll (OBJECT_REMOVED (oid object)), SaveObjects (objects s2)]))"

definition HUG_PROXIMITY_THRESHOLD :: real where "HUG_PROXIMITY_THRESHOLD = 60"
definition HUG_DURATION :: int where "HUG_DURATION = 2000"

definition handleHug :: "state \<Rightarrow> client \<Rightarrow> int \<Rightarrow> state \<times> effect list" where
  "handleHug s c now =
     (if \<not> authenticated c then (s, sendError c ''Not authenticated'')
      else (case client_player s c of
              None \<Rightarrow> (s, [])
            | Some player \<Rightarrow>
                if \<not> connected player then (s, [])
                else if hugging player then (s, [])
                else
                  (case filter (\<lambda>p. connected p \<and> pid p \<noteq> pid player) (players s) of
                     [] \<Rightarrow> (s, [])
                   | otherPlayer # _ \<Rightarrow>
                       let dx = px player - px otherPlayer;
                           dy = py player - py otherPlayer;
                           distance = sqrt (dx * dx + dy * dy)
                       in if distance > HUG_PROXIMITY_THRESHOLD then (s, [])
                          else if hugging otherPlayer then (s, [])
                          else
                            let hugEndTime1 = now + HUG_DURATION;
                                avgY = (py player + py otherPlayer) / 2;
                                start = (\<lambda>p. p\<lparr>py := avgY, hugging := True,
                                               hugEndTime := hugEndTime1,
                                               pvx := 0, pvy := 0\<rparr>);
                                ps1 = Map_update pid (players s) (pid player) start;
                                ps2 = Map_update pid ps1 (pid otherPlayer) start
                            in (s\<lparr>players := ps2\<rparr>,
                                broadcastHugStarted (pid player) (pid otherPlayer)))))"

definition BENCH_SEAT_OFFSET :: real where "BENCH_SEAT_OFFSET = 14"
definition STAND_OFFSET :: real where "STAND_OFFSET = 50"

definition handleBenchSit :: "state \<Rightarrow> client \<Rightarrow> int \<Rightarrow> state \<times> effect list" where
  "handleBenchSit s c now =
     (if \<not> authenticated c then (s, sendError c ''Not authenticated'')
      else (case client_player s c of
              None \<Rightarrow> (s, sendError c ''Player not found'')
            | Some player \<Rightarrow>
                if \<not> connected player then (s, sendError c ''Player not found'')
                else if sitting player then (s, [])
                else
                  let dx = px player - BENCH_X;
                      dy = py player - BENCH_Y;
                      distance = sqrt (dx * dx + dy * dy)
                  in if distance > 100 then (s, [])
                     else
                       let sittingCount =
                             length (filter (\<lambda>p. connected p \<and> sitting p) (players s))
                       in if sittingCount \<ge> 2 then (s, [])
                          else
                            let seatOffset = (if sittingCount = 0 then BENCH_SEAT_OFFSET
                                              else - BENCH_SEAT_OFFSET);
                                s1 = s\<lparr>players := Map_update pid (players s) (pid player)
                                        (\<lambda>p. p\<lparr>px := BENCH_X + seatOffset, py := BENCH_Y,
                                               pvx := 0, pvy := 0, sitting := True,
                                               lastUpdate := now\<rparr>)\<rparr>
                            in (s1, broadcastState s1 now)))"

definition handleBenchStand :: "state \<Rightarrow> client \<Rightarrow> int \<Rightarrow> state \<times> effect list" where
  "handleBenchStand s c now =
     (if \<not> authenticated c then (s, sendError c ''Not authenticated'')
      else (case client_player s c of
              None \<Rightarrow> (s, sendError c ''Player not found'')
            | Some player \<Rightarrow>
                if \<not> connected player then (s, sendError c ''Player not found'')
                else if \<not> sitting player then (s, [])
                else
                  let dx = px player - BENCH_X;
                      standX = (if dx < 0 then BENCH_X - STAND_OFFSET else BENCH_X + STAND_OFFSET);
                      s1 = s\<lparr>players := Map_update pid (players s) (pid player)
                              (\<lambda>p. p\<lparr>px := standX, py := BENCH_Y, pvx := 0, pvy := 0,
                                     sitting := False, lastUpdate := now\<rparr>)\<rparr>
                  in (s1, broadcastState s1 now)))"

definition handleResetPosition :: "state \<Rightarrow> client \<Rightarrow> int \<Rightarrow> state \<times> effect list" where
  "handleResetPosition s c now =
     (if \<not> authenticated c then (s, sendError c ''Not authenticated'')
      else (case client_player s c of
              None \<Rightarrow> (s, sendError c ''Player not found'')
            | Some player \<Rightarrow>
                if \<not> connected player then (s, sendError c ''Player not found'')
                else
                  let s1 = s\<lparr>players := Map_update pid (players s) (pid player)
                              (\<lambda>p. p\<lparr>pvx := 0, pvy := 0, px := 1604.97, py := 802.74,
                                     lastUpdate := now\<rparr>)\<rparr>
                  in (s1, broadcastState s1 now)))"

definition handleDisconnect :: "state \<Rightarrow> client \<Rightarrow> state \<times> effect list" where
  "handleDisconnect s c =
     (if \<not> authenticated c then (s, [])
      else (case client_player s c of
              None \<Rightarrow> (s, [])
            | Some player \<Rightarrow>
                let s1 = s\<lparr>players := Map_update pid (players s) (pid player)
                            (\<lambda>p. p\<lparr>connected := False\<rparr>)\<rparr>;
                    s2 = assignFollowersToPlayers s1
                in (s2, [BroadcastToOthers (conn c) (PLAYER_LEFT (pid player)),
                         SaveState (players s2)])))"


text \<open>The messages of a client, named as in \<^verbatim>\<open>MESSAGE_TYPES\<close>; \<open>UNKNOWN\<close> is any other
  \<^verbatim>\<open>type\<close> and \<open>MALFORMED\<close> a text on which \<^verbatim>\<open>JSON.parse\<close> throws.\<close>

datatype client_msg =
    JOIN join_data
  | INPUT "input option"
  | RESET_POSITION
  | PLACE_COLLIDER "real option" "real option"
  | REMOVE_COLLIDER "real option" "real option"
  | PLACE_OBJECT raw_object
  | REMOVE_OBJECT remove_data
  | HUG
  | BENCH_SIT
  | BENCH_STAND
  | UNKNOWN
  | MALFORMED

fun handleMessage ::
  "state \<Rightarrow> client \<Rightarrow> client_msg \<Rightarrow> string \<Rightarrow> int \<Rightarrow> state \<times> client \<times> effect list" where
  "handleMessage s c (JOIN d) newId now = handleJoin s c d newId now"
| "handleMessage s c (INPUT i) newId now =
     (case handleInput s c i of (s1, ev) \<Rightarrow> (s1, c, ev))"
| "handleMessage s c RESET_POSITION newId now =
     (case handleResetPosition s c now of (s1, ev) \<Rightarrow> (s1, c, ev))"
| "handleMessage s c (PLACE_COLLIDER col row) newId now =
     (case handlePlaceCollider s c col row of (s1, ev) \<Rightarrow> (s1, c, ev))"
| "handleMessage s c (REMOVE_COLLIDER col row) newId now =
     (case handleRemoveCollider s c col row of (s1, ev) \<Rightarrow> (s1, c, ev))"
| "handleMessage s c (PLACE_OBJECT d) newId now =
     (case handlePlaceObject s c d newId now of (s1, ev) \<Rightarrow> (s1, c, ev))"
| "handleMessage s c (REMOVE_OBJECT d) newId now =
     (case handleRemoveObject s c d of (s1, ev) \<Rightarrow> (s1, c, ev))"
| "handleMessage s c HUG newId now =
     (case handleHug s c now of (s1, ev) \<Rightarrow> (s1, c, ev))"
| "handleMessage s c BENCH_SIT newId now =
     (case handleBenchSit s c now of (s1, ev) \<Rightarrow> (s1, c, ev))"
| "handleMessage s c BENCH_STAND newId now =
     (case handleBenchStand s c now of (s1, ev) \<Rightarrow> (s1, c, ev))"
| "handleMessage s c UNKNOWN newId now = (s, c, [])"
| "handleMessage s c MALFORMED newId now = (s, c, sendError c ''Invalid message format'')"

section \<open>server.js: start-up\<close>

text \<open>A player of the saved state: the key of the entry, and \<^verbatim>\<open>player.name\<close>,
  \<^verbatim>\<open>player.character\<close>, \<^verbatim>\<open>player.x\<close> and \<^verbatim>\<open>player.y\<close>, each \<open>None\<close> when the source
  takes the default (an absent name, a falsy character or coordinate).\<close>

record saved_player =
  sp_id :: string
  sp_name :: "string option"
  sp_character :: "string option"
  sp_x :: "real option"
  sp_y :: "real option"

definition restorePlayer :: "int \<Rightarrow> saved_player \<Rightarrow> player" where
  "restorePlayer now sp =
     (createPlayerState (sp_id sp)
        (case sp_name sp of None \<Rightarrow> ''Player'' | Some n \<Rightarrow> n)
        (or_else (sp_character sp) ''1'') now)
       \<lparr> px := (case sp_x sp of None \<Rightarrow> 0 | Some v \<Rightarrow> v),
         py := (case sp_y sp of None \<Rightarrow> 0 | Some v \<Rightarrow> v),
         connected := False \<rparr>"

definition initializeGame :: "saved_player list \<Rightarrow> int \<Rightarrow> state \<Rightarrow> state" where
  "initializeGame saved now s =
     s\<lparr>players := fold (\<lambda>sp ps. Map_set pid ps (restorePlayer now sp)) saved (players s)\<rparr>"

definition initializeColliders :: "(real \<times> real) list \<Rightarrow> state \<Rightarrow> state" where
  "initializeColliders colliders s = setColliders s colliders"

text \<open>\<^verbatim>\<open>initializeObjects\<close>; each saved object comes with the identifier that
  \<^verbatim>\<open>normalizeObjectData\<close> would generate for it.\<close>

definition initializeObjects :: "(raw_object \<times> string) list \<Rightarrow> int \<Rightarrow> state \<Rightarrow> state" where
  "initializeObjects saved now s =
     fold (\<lambda>(raw, newId) s1.
             case normalizeObjectData raw newId now of
               None \<Rightarrow> s1
             | Some normalized \<Rightarrow>
                 if Map_has oid (objects s1) (oid normalized) then s1
                 else addObjectCollider
                        (s1\<lparr>objects := Map_set oid (objects s1) normalized\<rparr>) normalized)
       saved (clearObjectColliders (s\<lparr>objects := []\<rparr>))"

definition initializeFollowers :: "state \<Rightarrow> state" where
  "initializeFollowers s =
     fold (\<lambda>(i, spriteKey) s1.
             if Map_has fid (followers s1) i then s1
             else
               let spawn = SPAWN_POINTS ! 0;
                   f = (createFollowerState i spriteKey)
                         \<lparr> fx := fst spawn * TILE_SIZE + TILE_SIZE / 2,
                           fy := (snd spawn + 1) * TILE_SIZE \<rparr>
               in s1\<lparr>followers := Map_set fid (followers s1) f\<rparr>)
       FOLLOWER_TEMPLATES s"

definition startServer ::
  "saved_player list \<Rightarrow> (real \<times> real) list \<Rightarrow> (raw_object \<times> string) list \<Rightarrow> int \<Rightarrow> state" where
  "startServer savedPlayers savedColliders savedObjects now =
     assignFollowersToPlayers
       (initializeFollowers
          (initializeObjects savedObjects now
             (initializeColliders savedColliders
                (initializeGame savedPlayers now (createGameState now)))))"

section \<open>Runs of the server\<close>

text \<open>The server handles one event at a time: a message of a connection, a firing of
  the tick timer, or the close of a connection. A run is a list of such events; the
  connection of an event is given with the \<^verbatim>\<open>playerId\<close> it holds at that moment.\<close>

datatype action =
    Message client client_msg string int
  | Tick int
  | Close client

fun step :: "state \<Rightarrow> action \<Rightarrow> state" where
  "step s (Message c m newId now) = fst (handleMessage s c m newId now)"
| "step s (Tick now) = fst (gameTick now s)"
| "step s (Close c) = fst (handleDisconnect s c)"

definition run :: "state \<Rightarrow> action list \<Rightarrow> state" where
  "run s acts = foldl step s acts"

definition in_world :: "player \<Rightarrow> bool" where
  "in_world p = (0 \<le> px p \<and> px p \<le> WORLD_WIDTH \<and> 0 \<le> py p \<and> py p \<le> WORLD_HEIGHT)"

section \<open>Properties of runs\<close>

text \<open>At most \<^verbatim>\<open>MAX_PLAYERS\<close> players are connected.\<close>

definition connected_bound :: "state \<Rightarrow> bool" where
  "connected_bound s = (length (filter connected (players s)) \<le> MAX_PLAYERS)"


text \<open>The keys of the \<^verbatim>\<open>Map\<close> of players are distinct.\<close>

definition ids_distinct :: "state \<Rightarrow> bool" where
  "ids_distinct s = distinct (map pid (players s))"


text \<open>The acknowledged sequence number \<open>b\<close> after an event against \<open>a\<close> before it: \<open>b\<close> is
  \<open>a\<close> or greater, or it has become \<^verbatim>\<open>NaN\<close>.\<close>

definition seq_kept :: "js_number \<Rightarrow> js_number \<Rightarrow> bool" where
  "seq_kept a b = (b = NaN \<or> a = b \<or> js_less a b)"

text \<open>What one event may do to a stored player: the identifier stays, the acknowledged
  sequence number does not decrease, and the embrace of a disconnected player is left
  alone.\<close>

definition evolves :: "player \<Rightarrow> player \<Rightarrow> bool" where
  "evolves p q =
     (pid q = pid p \<and> seq_kept (lastInputSeq p) (lastInputSeq q) \<and>
      (\<not> connected p \<longrightarrow> hugging q = hugging p \<and> hugEndTime q = hugEndTime p))"

text \<open>What one event may do to the registry: no player is removed or moved, and each
  stored player evolves.\<close>

definition grows :: "state \<Rightarrow> state \<Rightarrow> bool" where
  "grows s s' = (length (players s) \<le> length (players s') \<and>
                 (\<forall>i < length (players s). evolves (players s ! i) (players s' ! i)))"


section \<open>Example connections, messages and runs\<close>

text \<open>Three connections that have not joined yet, two join messages, and the runs that
  the worked examples below start from.\<close>

definition conn0 :: client where "conn0 = \<lparr>conn = 0, playerId = None, isOpen = True\<rparr>"
definition conn1 :: client where "conn1 = \<lparr>conn = 1, playerId = None, isOpen = True\<rparr>"
definition conn2 :: client where "conn2 = \<lparr>conn = 2, playerId = None, isOpen = True\<rparr>"

definition join_as :: "string \<Rightarrow> join_data" where
  "join_as n = \<lparr>j_name = Some n, j_character = Some ''1'', j_playerId = None\<rparr>"

definition rejoin_as :: "string \<Rightarrow> string \<Rightarrow> join_data" where
  "rejoin_as n i = \<lparr>j_name = Some n, j_character = Some ''1'', j_playerId = Some i\<rparr>"

definition empty_room :: state where "empty_room = startServer [] [] [] 0"

definition full_room :: state where
  "full_room = run empty_room
     [Message conn0 (JOIN (join_as ''Ann'')) ''player_1'' 1,
      Message conn1 (JOIN (join_as ''Bob'')) ''player_2'' 2]"


definition right_only :: key_state where
  "right_only = \<lparr>key_up = False, key_down = False, key_left = False, key_right = True,
                  key_w = False, key_a = False, key_s = False, key_d = False\<rparr>"


text \<open>The scenario of the specification: a player at \<open>(100, 100)\<close> whose buffered input
  holds the right key only.\<close>

definition scenario_saved :: saved_player where
  "scenario_saved = \<lparr>sp_id = ''player_7'', sp_name = Some ''Sam'', sp_character = Some ''1'',
                      sp_x = Some 100, sp_y = Some 100\<rparr>"

definition scenario_input :: input where
  "scenario_input = \<lparr>keys = right_only, seq = Num 1, timestamp = 2\<rparr>"

definition scenario_room :: state where
  "scenario_room = run (startServer [scenario_saved] [] [] 0)
     [Message conn0 (JOIN (rejoin_as ''Sam'' ''player_7'')) ''player_1'' 1,
      Message (conn0\<lparr>playerId := Some ''player_7''\<rparr>) (INPUT (Some scenario_input)) [] 3]"

text \<open>A join that names an identifier the server never issued.\<close>

definition stranger_join :: join_data where
  "stranger_join = \<lparr>j_name = Some ''Mal'', j_character = Some ''2'', j_playerId = Some ''admin''\<rparr>"

text \<open>Two saved players close to each other rejoin; one asks for an embrace; then the other
  leaves.\<close>

definition hug_saved_a :: saved_player where
  "hug_saved_a = \<lparr>sp_id = ''player_a'', sp_name = Some ''Ann'', sp_character = Some ''1'',
                   sp_x = Some 500, sp_y = Some 500\<rparr>"

definition hug_saved_b :: saved_player where
  "hug_saved_b = \<lparr>sp_id = ''player_b'', sp_name = Some ''Bob'', sp_character = Some ''2'',
                   sp_x = Some 530, sp_y = Some 520\<rparr>"

definition conn_a :: client where "conn_a = conn0\<lparr>playerId := Some ''player_a''\<rparr>"
definition conn_b :: client where "conn_b = conn1\<lparr>playerId := Some ''player_b''\<rparr>"

definition pair_room :: state where
  "pair_room = run (startServer [hug_saved_a, hug_saved_b] [] [] 0)
     [Message conn0 (JOIN (rejoin_as ''Ann'' ''player_a'')) ''player_1'' 1,
      Message conn1 (JOIN (rejoin_as ''Bob'' ''player_b'')) ''player_2'' 2]"

definition hug_room :: state where
  "hug_room = run pair_room [Message conn_a HUG [] 1000]"

definition left_room :: state where
  "left_room = run hug_room [Close conn_b]"

text \<open>The player of the scenario has joined; its connection sends the packet with sequence
  number 5, then the packet with sequence number 3, and then the tick fires.\<close>

definition packet5 :: input where "packet5 = \<lparr>keys = right_only, seq = Num 5, timestamp = 10\<rparr>"
definition packet3 :: input where "packet3 = \<lparr>keys = right_only, seq = Num 3, timestamp = 20\<rparr>"

definition scenario_conn :: client where "scenario_conn = conn0\<lparr>playerId := Some ''player_7''\<rparr>"

definition joined_room :: state where
  "joined_room = run (startServer [scenario_saved] [] [] 0)
     [Message conn0 (JOIN (rejoin_as ''Sam'' ''player_7'')) ''player_1'' 1]"

text \<open>A packet whose sequence number is not a number, the run in which the tick applies
  it, and the packets that follow.\<close>

definition nan_packet :: input where
  "nan_packet = \<lparr>keys = right_only, seq = NaN, timestamp = 60\<rparr>"

definition nan_run :: "action list" where
  "nan_run = [Message scenario_conn (INPUT (Some nan_packet)) [] 60, Tick 100]"

definition nan_room :: state where "nan_room = run joined_room nan_run"

definition after_nan_run :: "action list" where
  "after_nan_run = [Message scenario_conn (INPUT (Some packet5)) [] 110, Tick 150]"

definition packets_run :: "action list" where
  "packets_run =
     [Message scenario_conn (INPUT (Some packet5)) [] 10,
      Message scenario_conn (INPUT (Some packet3)) [] 20,
      Tick 50]"

text \<open>A request to place a display object of the default size at a position, the object
  that results from it, and a room in which one object has been placed.\<close>

definition poster_at :: "real \<Rightarrow> real \<Rightarrow> raw_object" where
  "poster_at x y = \<lparr>raw_id = None, raw_x = Some x, raw_y = Some y, raw_col = None, raw_row = None,
                    raw_imageSrc = Some ''cat.png'', raw_text = Some ''hello'',
                    raw_width = None, raw_height = None,
                    raw_createdAt = None, raw_updatedAt = None\<rparr>"

definition gallery :: state where
  "gallery = fst (handlePlaceObject pair_room conn_a (poster_at 1000 1000) ''object_1'' 10)"

definition poster :: "string \<Rightarrow> real \<Rightarrow> real \<Rightarrow> int \<Rightarrow> display_object" where
  "poster i x y t = \<lparr>oid = i, ox = x, oy = y, owidth = 48, oheight = 72,
                     imageSrc = ''cat.png'', otext = ''hello'', createdAt = t, updatedAt = t\<rparr>"




text \<open>Three saved players who stood up from the bench before they were saved. Two rejoin
  and sit down.\<close>

definition bench_saved :: "string \<Rightarrow> string \<Rightarrow> saved_player" where
  "bench_saved i n = \<lparr>sp_id = i, sp_name = Some n, sp_character = Some ''1'',
                       sp_x = Some 2710, sp_y = Some 1511\<rparr>"


definition bench_start :: state where
  "bench_start = startServer [bench_saved ''player_a'' ''Ann'', bench_saved ''player_b'' ''Bob'',
                              bench_saved ''player_c'' ''Cy''] [] [] 0"

definition two_seated :: state where
  "two_seated = run bench_start
     [Message conn0 (JOIN (rejoin_as ''Ann'' ''player_a'')) ''player_1'' 1,
      Message conn_a BENCH_SIT [] 10,
      Message conn1 (JOIN (rejoin_as ''Bob'' ''player_b'')) ''player_2'' 11,
      Message conn_b BENCH_SIT [] 20]"


text \<open>Or else the first stands up and sits down again.\<close>

definition sits_again :: state where
  "sits_again = run two_seated
     [Message conn_a BENCH_STAND [] 30,
      Message conn_a BENCH_SIT [] 40]"

section \<open>Facts about the embedding\<close>

lemma Map_get_Some: "Map_get key xs k = Some v \<Longrightarrow> v \<in> set xs \<and> key v = k"
  unfolding Map_get_def by (auto simp: find_Some_iff)

lemma Map_get_None: "(Map_get key xs k = None) = (k \<notin> key ` set xs)"
  unfolding Map_get_def by (auto simp: find_None_iff)

lemma Map_has_iff: "Map_has key xs k = (k \<in> key ` set xs)"
  unfolding Map_has_def by (auto simp: list_ex_iff)

lemma length_Map_update [simp]: "length (Map_update key xs k f) = length xs"
  by (induction xs) auto

lemma set_Map_update: "v \<in> set (Map_update key xs k f) \<Longrightarrow> v \<in> set xs \<or> (\<exists>u\<in>set xs. key u = k \<and> v = f u)"
  by (induction xs) (auto split: if_splits)

lemma set_Map_set: "v \<in> set (Map_set key xs u) \<Longrightarrow> v \<in> set xs \<or> v = u"
  by (induction xs) (auto split: if_splits)

lemma map_key_Map_update: "(\<And>u. key (f u) = key u) \<Longrightarrow> map key (Map_update key xs k f) = map key xs"
  by (induction xs) auto

lemma map_key_Map_set: "map key (Map_set key xs u) = (if key u \<in> key ` set xs then map key xs else map key xs @ [key u])"
  by (induction xs) auto

lemma count_Map_update_le:
  "(\<And>u. P (f u) \<Longrightarrow> P u) \<Longrightarrow> length (filter P (Map_update key xs k f)) \<le> length (filter P xs)"
  by (induction xs) auto

lemma count_Map_set_le: "length (filter P (Map_set key xs u)) \<le> Suc (length (filter P xs))"
  by (induction xs) auto

lemma nth_Map_update:
  "i < length xs \<Longrightarrow> Map_update key xs k f ! i = xs ! i \<or> (key (xs ! i) = k \<and> Map_update key xs k f ! i = f (xs ! i))"
  by (induction xs arbitrary: i) (auto simp: nth_Cons split: nat.splits)

lemma Map_get_Map_update_same:
  "Map_get key xs k = Some v \<Longrightarrow> key (f v) = k \<Longrightarrow> Map_get key (Map_update key xs k f) k = Some (f v)"
  unfolding Map_get_def by (induction xs) (auto split: if_splits)





lemma players_assignFollowers [simp]: "players (assignFollowersToPlayers s) = players s"
  unfolding assignFollowersToPlayers_def by (simp add: Let_def)

lemma players_updateFollowers [simp]: "players (updateFollowers d s) = players s"
  unfolding updateFollowers_def by simp

lemma players_addColliderTile [simp]: "players (fst (addColliderTile s col row)) = players s"
  unfolding addColliderTile_def by simp

lemma players_removeColliderTile [simp]: "players (fst (removeColliderTile s col row)) = players s"
  unfolding removeColliderTile_def by simp

lemma players_addObjectCollider [simp]: "players (addObjectCollider s obj) = players s"
  unfolding addObjectCollider_def by (simp add: Let_def)

lemma players_removeObjectCollider [simp]: "players (removeObjectCollider s i) = players s"
  unfolding removeObjectCollider_def by simp

lemma players_handlePlaceCollider [simp]: "players (fst (handlePlaceCollider s c col row)) = players s"
  unfolding handlePlaceCollider_def by (auto split: prod.splits simp: addColliderTile_def)

lemma players_handleRemoveCollider [simp]: "players (fst (handleRemoveCollider s c col row)) = players s"
  unfolding handleRemoveCollider_def by (auto split: prod.splits simp: removeColliderTile_def)

lemma players_handlePlaceObject [simp]: "players (fst (handlePlaceObject s c d newId now)) = players s"
  unfolding handlePlaceObject_def by (auto split: option.splits simp: Let_def)

lemma players_handleRemoveObject [simp]: "players (fst (handleRemoveObject s c d)) = players s"
  unfolding handleRemoveObject_def by (auto split: option.splits simp: Let_def)


lemma handleInput_players:
  "players (fst (handleInput s c inp)) = players s \<or>
   (\<exists>v. v \<in> set (players s) \<and> connected v \<and>
      players (fst (handleInput s c inp)) =
        Map_update pid (players s) (pid v) (\<lambda>p. p\<lparr>lastInput := inp\<rparr>))"
  unfolding handleInput_def client_player_def
  by (auto split: option.splits dest: Map_get_Some)

lemma handleResetPosition_players:
  "players (fst (handleResetPosition s c now)) = players s \<or>
   (\<exists>v. v \<in> set (players s) \<and> connected v \<and>
      players (fst (handleResetPosition s c now)) =
        Map_update pid (players s) (pid v)
          (\<lambda>p. p\<lparr>pvx := 0, pvy := 0, px := 1604.97, py := 802.74, lastUpdate := now\<rparr>))"
  unfolding handleResetPosition_def client_player_def
  by (auto split: option.splits dest: Map_get_Some simp: Let_def)

lemma handleBenchStand_players:
  "players (fst (handleBenchStand s c now)) = players s \<or>
   (\<exists>v X. v \<in> set (players s) \<and> connected v \<and> (X = BENCH_X - STAND_OFFSET \<or> X = BENCH_X + STAND_OFFSET) \<and>
      players (fst (handleBenchStand s c now)) = Map_update pid (players s) (pid v)
         (\<lambda>p. p\<lparr>px := X, py := BENCH_Y, pvx := 0, pvy := 0, sitting := False, lastUpdate := now\<rparr>))"
  unfolding handleBenchStand_def client_player_def
  by (auto split: option.splits dest: Map_get_Some simp: Let_def)

lemma handleBenchSit_players:
  "players (fst (handleBenchSit s c now)) = players s \<or>
   (\<exists>v X. v \<in> set (players s) \<and> connected v \<and> (X = BENCH_X - BENCH_SEAT_OFFSET \<or> X = BENCH_X + BENCH_SEAT_OFFSET) \<and>
      players (fst (handleBenchSit s c now)) = Map_update pid (players s) (pid v)
         (\<lambda>p. p\<lparr>px := X, py := BENCH_Y, pvx := 0, pvy := 0, sitting := True, lastUpdate := now\<rparr>))"
  unfolding handleBenchSit_def client_player_def
  by (auto split: option.splits dest: Map_get_Some simp: Let_def)

lemma handleDisconnect_players:
  "players (fst (handleDisconnect s c)) = players s \<or>
   (\<exists>v. v \<in> set (players s) \<and>
      players (fst (handleDisconnect s c)) = Map_update pid (players s) (pid v) (\<lambda>p. p\<lparr>connected := False\<rparr>))"
  unfolding handleDisconnect_def client_player_def
  by (auto split: option.splits dest: Map_get_Some simp: Let_def)

lemma handleHug_players:
  "players (fst (handleHug s c now)) = players s \<or>
   (\<exists>u v. u \<in> set (players s) \<and> v \<in> set (players s) \<and> connected u \<and> connected v \<and> pid u \<noteq> pid v \<and>
      \<not> hugging u \<and> \<not> hugging v \<and>
      players (fst (handleHug s c now)) =
        Map_update pid (Map_update pid (players s) (pid u)
           (\<lambda>p. p\<lparr>py := (py u + py v) / 2, hugging := True, hugEndTime := now + HUG_DURATION, pvx := 0, pvy := 0\<rparr>))
           (pid v)
           (\<lambda>p. p\<lparr>py := (py u + py v) / 2, hugging := True, hugEndTime := now + HUG_DURATION, pvx := 0, pvy := 0\<rparr>))"
proof (cases "players (fst (handleHug s c now)) = players s")
  case True then show ?thesis by simp
next
  case False
  then obtain u where u: "client_player s c = Some u" "connected u" "\<not> hugging u"
    unfolding handleHug_def by (auto split: option.splits if_splits)
  from False u obtain v rest where v: "filter (\<lambda>p. connected p \<and> pid p \<noteq> pid u) (players s) = v # rest"
    unfolding handleHug_def by (auto split: option.splits if_splits list.splits)
  have "v \<in> set (filter (\<lambda>p. connected p \<and> pid p \<noteq> pid u) (players s))" using v by simp
  then have v2: "v \<in> set (players s)" "connected v" "pid v \<noteq> pid u" by auto
  have u2: "u \<in> set (players s)" using u(1) unfolding client_player_def
    by (auto split: option.splits dest: Map_get_Some)
  from False u v have hv: "\<not> hugging v"
    unfolding handleHug_def by (auto split: option.splits if_splits list.splits simp: Let_def)
  from False u v hv have "players (fst (handleHug s c now)) =
        Map_update pid (Map_update pid (players s) (pid u)
           (\<lambda>p. p\<lparr>py := (py u + py v) / 2, hugging := True, hugEndTime := now + HUG_DURATION, pvx := 0, pvy := 0\<rparr>))
           (pid v)
           (\<lambda>p. p\<lparr>py := (py u + py v) / 2, hugging := True, hugEndTime := now + HUG_DURATION, pvx := 0, pvy := 0\<rparr>)"
    unfolding handleHug_def by (auto split: option.splits if_splits list.splits simp: Let_def)
  with u u2 v2 hv show ?thesis by (metis)
qed



lemma isCollidable_players [simp]: "isCollidable (s\<lparr>players := ps\<rparr>) = isCollidable s"
  by (rule ext)+ (simp add: isCollidable_def hasColliderTile_def)

lemma canMoveTo_players [simp]: "canMoveTo (s\<lparr>players := ps\<rparr>) = canMoveTo s"
  by (rule ext)+ (simp add: canMoveTo_def)

lemma processPlayerInput_players [simp]: "processPlayerInput (s\<lparr>players := ps\<rparr>) = processPlayerInput s"
  by (rule ext)+ (simp add: processPlayerInput_def)

lemma tickPlayer_players [simp]: "tickPlayer (s\<lparr>players := ps\<rparr>) = tickPlayer s"
  by (rule ext)+ (simp add: tickPlayer_def split: option.splits)

lemma gameTick_players:
  "players (fst (gameTick now s)) = map (\<lambda>p. tickPlayer s now (endHug now p)) (players s)"
  unfolding gameTick_def by (simp add: Let_def)

lemma gameTick_effects:
  "snd (gameTick now s) =
     concat (map (\<lambda>p. if hug_expires now p then broadcastHugEnded (pid p) else []) (players s))
     @ broadcastState (fst (gameTick now s)) now"
  unfolding gameTick_def by (simp add: Let_def)


lemma processPlayerInput_fields [simp]:
  "pid (processPlayerInput s p inp now) = pid p"
  "connected (processPlayerInput s p inp now) = connected p"
  "hugging (processPlayerInput s p inp now) = hugging p"
  "hugEndTime (processPlayerInput s p inp now) = hugEndTime p"
  "sitting (processPlayerInput s p inp now) = sitting p"
  "lastInput (processPlayerInput s p inp now) = lastInput p"
  "lastInputSeq (processPlayerInput s p inp now) = Math_max (lastInputSeq p) (seq inp)"
  unfolding processPlayerInput_def by (simp_all add: Let_def split: prod.splits)

lemma endHug_fields [simp]:
  "pid (endHug now p) = pid p"
  "connected (endHug now p) = connected p"
  "sitting (endHug now p) = sitting p"
  "px (endHug now p) = px p"
  "py (endHug now p) = py p"
  "lastInput (endHug now p) = lastInput p"
  "lastInputSeq (endHug now p) = lastInputSeq p"
  unfolding endHug_def by simp_all

lemma tickPlayer_fields [simp]:
  "pid (tickPlayer s now p) = pid p"
  "connected (tickPlayer s now p) = connected p"
  "hugging (tickPlayer s now p) = hugging p"
  "hugEndTime (tickPlayer s now p) = hugEndTime p"
  "sitting (tickPlayer s now p) = sitting p"
  "lastInput (tickPlayer s now p) = lastInput p"
  unfolding tickPlayer_def by (simp_all split: option.splits)



lemma world_size: "WORLD_WIDTH = 3840" "WORLD_HEIGHT = 2880"
  by (simp_all add: WORLD_WIDTH_def WORLD_HEIGHT_def WORLD_COLS_def WORLD_ROWS_def
       MAP_COLS_def MAP_ROWS_def MAP_WIDTH_TILES_def MAP_HEIGHT_TILES_def TILE_SIZE_def COLLIDER_TILE_SIZE_def)

lemma handleJoin_full:
  "length (filter connected (players s)) \<ge> MAX_PLAYERS \<Longrightarrow>
   handleJoin s c d newId now = (s, c, sendError c ''Room is full. Maximum 2 players allowed.'')"
  unfolding handleJoin_def by (simp add: Let_def)

lemma handleJoin_players:
  "players (fst (handleJoin s c d newId now)) = players s \<or>
   (length (filter connected (players s)) < MAX_PLAYERS \<and>
    (\<exists>player. players (fst (handleJoin s c d newId now)) = Map_set pid (players s) player \<and>
       ((Map_get pid (players s) (pid player) = None \<and> in_world player \<and> lastInputSeq player = Num 0
            \<and> \<not> hugging player \<and> \<not> sitting player) \<or>
        (\<exists>p nm ch. Map_get pid (players s) (pid player) = Some p \<and>
             player = p\<lparr>connected := True, pname := nm, character := ch\<rparr>))))"
proof (cases "length (filter connected (players s)) \<ge> MAX_PLAYERS")
  case True
  then show ?thesis by (simp add: handleJoin_full)
next
  case False
  define k where "k = (case j_playerId d of None \<Rightarrow> newId
                  | Some i \<Rightarrow> if i = [] \<or> \<not> Map_has pid (players s) i then newId else i)"
  have idx: "min (length (filter connected (players s))) (length SPAWN_POINTS - 1) = 0 \<or>
             min (length (filter connected (players s))) (length SPAWN_POINTS - 1) = 1"
  proof -
    have "min n 1 = 0 \<or> min n 1 = (1::nat)" for n :: nat by arith
    then show ?thesis by (simp add: SPAWN_POINTS_def)
  qed
  define ch where "ch = (if j_character d = Some ''1'' then ''1''
                                      else if j_character d = Some ''2'' then ''2'' else ''1'')"
  show ?thesis
  proof (cases "Map_get pid (players s) k")
    case None
    define pl where "pl = (createPlayerState k (or_else (j_name d) ''Player'') ch now)
                 \<lparr> px := fst (SPAWN_POINTS ! min (length (filter connected (players s))) (length SPAWN_POINTS - 1)) * TILE_SIZE + TILE_SIZE / 2,
                   py := (snd (SPAWN_POINTS ! min (length (filter connected (players s))) (length SPAWN_POINTS - 1)) + 1) * TILE_SIZE \<rparr>"
    have 1: "players (fst (handleJoin s c d newId now)) = Map_set pid (players s) pl"
      using False None unfolding handleJoin_def k_def[symmetric] pl_def ch_def by (simp add: Let_def)
    have 2: "pid pl = k" by (simp add: createPlayerState_def pl_def)
    have 3: "in_world pl" using idx unfolding pl_def
      by (auto simp: in_world_def createPlayerState_def SPAWN_POINTS_def world_size TILE_SIZE_def COLLIDER_TILE_SIZE_def)
    have 4: "lastInputSeq pl = Num 0 \<and> \<not> hugging pl \<and> \<not> sitting pl" by (simp add: createPlayerState_def pl_def)
    have "Map_get pid (players s) (pid pl) = None" using None 2 by simp
    with False 1 3 4 show ?thesis by (metis not_le)
  next
    case (Some p)
    define pl where "pl = p\<lparr>connected := True, pname := or_else (j_name d) (pname p), character := ch\<rparr>"
    have 1: "players (fst (handleJoin s c d newId now)) = Map_set pid (players s) pl"
      using False Some unfolding handleJoin_def k_def[symmetric] pl_def ch_def by (simp add: Let_def)
    have 2: "pid pl = k" using Map_get_Some[OF Some] by (simp add: pl_def)
    have "Map_get pid (players s) (pid pl) = Some p" using Some 2 by simp
    with False 1 show ?thesis unfolding pl_def by (metis not_le)
  qed
qed



lemma ball_Map_update:
  "\<forall>v\<in>set xs. P v \<Longrightarrow> (\<And>u. u \<in> set xs \<Longrightarrow> P u \<Longrightarrow> P (f u)) \<Longrightarrow> \<forall>v\<in>set (Map_update key xs k f). P v"
  by (auto dest!: set_Map_update)

lemma ball_Map_set:
  "\<forall>v\<in>set xs. P v \<Longrightarrow> P u \<Longrightarrow> \<forall>v\<in>set (Map_set key xs u). P v"
  by (auto dest!: set_Map_set)

lemma distinct_Map_set: "distinct (map key xs) \<Longrightarrow> distinct (map key (Map_set key xs u))"
  by (simp add: map_key_Map_set)

lemma count_map_same: "(\<And>u. P (g u) = P u) \<Longrightarrow> length (filter P (map g xs)) = length (filter P xs)"
  by (induction xs) auto

lemma bench_in_world:
  "in_world (p\<lparr>px := BENCH_X + BENCH_SEAT_OFFSET, py := BENCH_Y\<rparr>)"
  "in_world (p\<lparr>px := BENCH_X - BENCH_SEAT_OFFSET, py := BENCH_Y\<rparr>)"
  "in_world (p\<lparr>px := BENCH_X + STAND_OFFSET, py := BENCH_Y\<rparr>)"
  "in_world (p\<lparr>px := BENCH_X - STAND_OFFSET, py := BENCH_Y\<rparr>)"
  "in_world (p\<lparr>px := 1604.97, py := 802.74\<rparr>)"
  by (simp_all add: in_world_def world_size BENCH_X_def BENCH_Y_def BENCH_SEAT_OFFSET_def STAND_OFFSET_def)

lemma in_world_cong: "px q = px p \<Longrightarrow> py q = py p \<Longrightarrow> in_world q = in_world p"
  by (simp add: in_world_def)

lemma in_world_avg: "in_world u \<Longrightarrow> in_world v \<Longrightarrow> in_world p \<Longrightarrow>
   in_world (p\<lparr>py := (py u + py v) / 2, hugging := h, hugEndTime := t, pvx := 0, pvy := 0\<rparr>)"
  by (simp add: in_world_def)


lemma bound_Map_update:
  assumes "length (filter connected ps) \<le> n" and "\<forall>u. connected (f u) \<longrightarrow> connected u"
  shows "length (filter connected (Map_update pid ps k f)) \<le> n"
proof -
  have "length (filter connected (Map_update pid ps k f)) \<le> length (filter connected ps)"
    using assms(2) by (induction ps) auto
  with assms(1) show ?thesis by simp
qed


lemma fst_handleMessage:
  "fst (handleMessage s c m newId now) =
    (case m of JOIN d \<Rightarrow> fst (handleJoin s c d newId now)
     | INPUT i \<Rightarrow> fst (handleInput s c i)
     | RESET_POSITION \<Rightarrow> fst (handleResetPosition s c now)
     | PLACE_COLLIDER col row \<Rightarrow> fst (handlePlaceCollider s c col row)
     | REMOVE_COLLIDER col row \<Rightarrow> fst (handleRemoveCollider s c col row)
     | PLACE_OBJECT d \<Rightarrow> fst (handlePlaceObject s c d newId now)
     | REMOVE_OBJECT d \<Rightarrow> fst (handleRemoveObject s c d)
     | HUG \<Rightarrow> fst (handleHug s c now)
     | BENCH_SIT \<Rightarrow> fst (handleBenchSit s c now)
     | BENCH_STAND \<Rightarrow> fst (handleBenchStand s c now)
     | UNKNOWN \<Rightarrow> s | MALFORMED \<Rightarrow> s)"
  by (cases m) (simp_all split: prod.splits)

lemma handleJoin_connected_bound:
  assumes "connected_bound s" shows "connected_bound (fst (handleJoin s c d newId now))"
proof -
  have "length (filter connected (Map_set pid (players s) pl)) \<le> MAX_PLAYERS"
    if "length (filter connected (players s)) < MAX_PLAYERS" for pl
    using that count_Map_set_le[of connected pid "players s" pl] by simp
  then show ?thesis using assms handleJoin_players[of s c d newId now]
    unfolding connected_bound_def by metis
qed

lemma handleInput_connected_bound:
  assumes "connected_bound s" shows "connected_bound (fst (handleInput s c i))"
  using assms handleInput_players[of s c i]
  unfolding connected_bound_def
  by (elim disjE exE conjE) (simp_all add: bound_Map_update)

lemma handleResetPosition_connected_bound:
  assumes "connected_bound s" shows "connected_bound (fst (handleResetPosition s c now))"
  using assms handleResetPosition_players[of s c now]
  unfolding connected_bound_def
  by (elim disjE exE conjE) (simp_all add: bound_Map_update)

lemma handleHug_connected_bound:
  assumes "connected_bound s" shows "connected_bound (fst (handleHug s c now))"
  using assms handleHug_players[of s c now]
  unfolding connected_bound_def
  by (elim disjE exE conjE) (simp_all add: bound_Map_update)

lemma handleBenchSit_connected_bound:
  assumes "connected_bound s" shows "connected_bound (fst (handleBenchSit s c now))"
  using assms handleBenchSit_players[of s c now]
  unfolding connected_bound_def
  by (elim disjE exE conjE) (simp_all add: bound_Map_update)

lemma handleBenchStand_connected_bound:
  assumes "connected_bound s" shows "connected_bound (fst (handleBenchStand s c now))"
  using assms handleBenchStand_players[of s c now]
  unfolding connected_bound_def
  by (elim disjE exE conjE) (simp_all add: bound_Map_update)

lemma handleDisconnect_connected_bound:
  assumes "connected_bound s" shows "connected_bound (fst (handleDisconnect s c))"
  using assms handleDisconnect_players[of s c]
  unfolding connected_bound_def
  by (elim disjE exE conjE) (simp_all add: bound_Map_update)

lemma handleMessage_connected_bound:
  assumes "connected_bound s" shows "connected_bound (fst (handleMessage s c m newId now))"
  unfolding fst_handleMessage using assms
  by (cases m)
     (simp_all add: handleJoin_connected_bound handleInput_connected_bound
        handleResetPosition_connected_bound handleHug_connected_bound
        handleBenchSit_connected_bound handleBenchStand_connected_bound, 
      simp_all add: connected_bound_def)

lemma step_connected_bound:
  assumes "connected_bound s" shows "connected_bound (step s a)"
proof (cases a)
  case (Message c m newId now)
  then show ?thesis using handleMessage_connected_bound[OF assms] by simp
next
  case (Tick now)
  then show ?thesis using assms unfolding connected_bound_def
    by (simp add: gameTick_players o_def)
next
  case (Close c)
  then show ?thesis using handleDisconnect_connected_bound[OF assms] by simp
qed

lemma run_connected_bound: "connected_bound s \<Longrightarrow> connected_bound (run s acts)"
  unfolding run_def by (induction acts arbitrary: s) (auto simp: step_connected_bound)



lemma pids_Map_update:
  assumes "\<forall>u. pid (f u) = pid u"
  shows "map pid (Map_update pid ps k f) = map pid ps"
  using assms by (induction ps) auto



lemma ids_distinct_update:
  assumes "ids_distinct s" and "players s' = Map_update pid (players s) k f"
    and "\<forall>u. pid (f u) = pid u"
  shows "ids_distinct s'"
  using pids_Map_update[OF assms(3), of "players s" k] assms(1,2)
  by (simp add: ids_distinct_def)

lemma ids_distinct_same:
  assumes "ids_distinct s" and "players s' = players s"
  shows "ids_distinct s'"
  using assms by (simp add: ids_distinct_def)













lemma handleJoin_ids_distinct:
  assumes "ids_distinct s" shows "ids_distinct (fst (handleJoin s c d newId now))"
  using handleJoin_players[of s c d newId now]
proof (elim disjE exE conjE)
  assume "players (fst (handleJoin s c d newId now)) = players s"
  then show ?thesis by (rule ids_distinct_same[OF assms])
next
  fix player :: player
  assume "players (fst (handleJoin s c d newId now)) = Map_set pid (players s) player"
  then show ?thesis using assms distinct_Map_set[of pid "players s" player]
    by (simp add: ids_distinct_def)
next
  fix player :: player
  assume "players (fst (handleJoin s c d newId now)) = Map_set pid (players s) player"
  then show ?thesis using assms distinct_Map_set[of pid "players s" player]
    by (simp add: ids_distinct_def)
qed

lemma handleInput_ids_distinct:
  assumes "ids_distinct s" shows "ids_distinct (fst (handleInput s c i))"
  using handleInput_players[of s c i]
proof (elim disjE exE conjE)
  fix v assume "players (fst (handleInput s c i)) =
        Map_update pid (players s) (pid v) (\<lambda>p. p\<lparr>lastInput := i\<rparr>)"
  then show ?thesis by (rule ids_distinct_update[OF assms]) simp
qed (rule ids_distinct_same[OF assms])

lemma handleResetPosition_ids_distinct:
  assumes "ids_distinct s" shows "ids_distinct (fst (handleResetPosition s c now))"
  using handleResetPosition_players[of s c now]
proof (elim disjE exE conjE)
  fix v assume "players (fst (handleResetPosition s c now)) =
        Map_update pid (players s) (pid v)
          (\<lambda>p. p\<lparr>pvx := 0, pvy := 0, px := 1604.97, py := 802.74, lastUpdate := now\<rparr>)"
  then show ?thesis by (rule ids_distinct_update[OF assms]) simp
qed (rule ids_distinct_same[OF assms])

lemma handleHug_ids_distinct:
  assumes "ids_distinct s" shows "ids_distinct (fst (handleHug s c now))"
  using handleHug_players[of s c now]
proof (elim disjE exE conjE)
  fix u v :: player
  let ?f = "\<lambda>p. p\<lparr>py := (py u + py v) / 2, hugging := True,
                     hugEndTime := now + HUG_DURATION, pvx := 0, pvy := 0\<rparr>"
  assume eq: "players (fst (handleHug s c now)) =
               Map_update pid (Map_update pid (players s) (pid u) ?f) (pid v) ?f"
  have f: "\<forall>p. pid (?f p) = pid p" by simp
  have 1: "ids_distinct (s\<lparr>players := Map_update pid (players s) (pid u) ?f\<rparr>)"
    by (rule ids_distinct_update[OF assms _ f]) simp
  show ?thesis by (rule ids_distinct_update[OF 1 _ f]) (simp add: eq)
qed (rule ids_distinct_same[OF assms])

lemma handleBenchSit_ids_distinct:
  assumes "ids_distinct s" shows "ids_distinct (fst (handleBenchSit s c now))"
  using handleBenchSit_players[of s c now]
proof (elim disjE exE conjE)
  fix v :: player and X :: real
  assume "players (fst (handleBenchSit s c now)) = Map_update pid (players s) (pid v)
         (\<lambda>p. p\<lparr>px := X, py := BENCH_Y, pvx := 0, pvy := 0, sitting := True, lastUpdate := now\<rparr>)"
  then show ?thesis by (rule ids_distinct_update[OF assms]) simp
next
  fix v :: player and X :: real
  assume "players (fst (handleBenchSit s c now)) = Map_update pid (players s) (pid v)
         (\<lambda>p. p\<lparr>px := X, py := BENCH_Y, pvx := 0, pvy := 0, sitting := True, lastUpdate := now\<rparr>)"
  then show ?thesis by (rule ids_distinct_update[OF assms]) simp
qed (rule ids_distinct_same[OF assms])

lemma handleBenchStand_ids_distinct:
  assumes "ids_distinct s" shows "ids_distinct (fst (handleBenchStand s c now))"
  using handleBenchStand_players[of s c now]
proof (elim disjE exE conjE)
  fix v :: player and X :: real
  assume "players (fst (handleBenchStand s c now)) = Map_update pid (players s) (pid v)
         (\<lambda>p. p\<lparr>px := X, py := BENCH_Y, pvx := 0, pvy := 0, sitting := False, lastUpdate := now\<rparr>)"
  then show ?thesis by (rule ids_distinct_update[OF assms]) simp
next
  fix v :: player and X :: real
  assume "players (fst (handleBenchStand s c now)) = Map_update pid (players s) (pid v)
         (\<lambda>p. p\<lparr>px := X, py := BENCH_Y, pvx := 0, pvy := 0, sitting := False, lastUpdate := now\<rparr>)"
  then show ?thesis by (rule ids_distinct_update[OF assms]) simp
qed (rule ids_distinct_same[OF assms])

lemma handleDisconnect_ids_distinct:
  assumes "ids_distinct s" shows "ids_distinct (fst (handleDisconnect s c))"
  using handleDisconnect_players[of s c]
proof (elim disjE exE conjE)
  fix v assume "players (fst (handleDisconnect s c)) =
        Map_update pid (players s) (pid v) (\<lambda>p. p\<lparr>connected := False\<rparr>)"
  then show ?thesis by (rule ids_distinct_update[OF assms]) simp
qed (rule ids_distinct_same[OF assms])

lemma handleMessage_ids_distinct:
  assumes "ids_distinct s" shows "ids_distinct (fst (handleMessage s c m newId now))"
  unfolding fst_handleMessage
  by (cases m)
     (simp_all add: assms handleJoin_ids_distinct[OF assms] handleInput_ids_distinct[OF assms]
        handleResetPosition_ids_distinct[OF assms] handleHug_ids_distinct[OF assms]
        handleBenchSit_ids_distinct[OF assms] handleBenchStand_ids_distinct[OF assms]
        ids_distinct_same[OF assms])

lemma gameTick_ids_distinct:
  assumes "ids_distinct s" shows "ids_distinct (fst (gameTick now s))"
  using assms unfolding ids_distinct_def
  by (simp add: gameTick_players o_def)

lemma step_ids_distinct:
  assumes "ids_distinct s" shows "ids_distinct (step s a)"
proof (cases a)
  case (Message c m newId now) then show ?thesis using handleMessage_ids_distinct[OF assms] by simp
next
  case (Tick now) then show ?thesis using gameTick_ids_distinct[OF assms] by simp
next
  case (Close c) then show ?thesis using handleDisconnect_ids_distinct[OF assms] by simp
qed

lemma run_ids_distinct: "ids_distinct s \<Longrightarrow> ids_distinct (run s acts)"
  unfolding run_def by (induction acts arbitrary: s) (simp_all add: step_ids_distinct)

lemma run_append: "run s (as @ bs) = run (run s as) bs"
  by (simp add: run_def)

lemma run_snoc: "run s (as @ [a]) = step (run s as) a"
  by (simp add: run_def)

lemma players_setColliders [simp]: "players (setColliders s cs) = players s"
  unfolding setColliders_def by simp

lemma players_initializeObjects [simp]: "players (initializeObjects saved now s) = players s"
proof -
  have "players (fold (\<lambda>(raw, newId) s1.
             case normalizeObjectData raw newId now of
               None \<Rightarrow> s1
             | Some normalized \<Rightarrow>
                 if Map_has oid (objects s1) (oid normalized) then s1
                 else addObjectCollider
                        (s1\<lparr>objects := Map_set oid (objects s1) normalized\<rparr>) normalized) saved t) = players t" for t
  proof (induction saved arbitrary: t)
    case Nil show ?case by simp
  next
    case (Cons a saved)
    obtain raw newId where a: "a = (raw, newId)" by (cases a)
    show ?case unfolding a by (cases "normalizeObjectData raw newId now") (simp_all add: Cons)
  qed
  then show ?thesis unfolding initializeObjects_def clearObjectColliders_def by simp
qed

lemma players_initializeFollowers [simp]: "players (initializeFollowers s) = players s"
  unfolding initializeFollowers_def FOLLOWER_TEMPLATES_def by (simp add: Let_def)

lemma players_startServer:
  "players (startServer sp sc so now) = fold (\<lambda>sp ps. Map_set pid ps (restorePlayer now sp)) sp []"
  unfolding startServer_def initializeGame_def initializeColliders_def createGameState_def by simp

lemma fold_Map_set_ball:
  assumes "\<forall>x. P (g x)"
  shows "\<forall>v\<in>set ps. P v \<Longrightarrow> \<forall>v\<in>set (fold (\<lambda>x ps. Map_set pid ps (g x)) xs ps). P v"
proof (induction xs arbitrary: ps)
  case Nil then show ?case by simp
next
  case (Cons a xs)
  have "\<forall>v\<in>set (Map_set pid ps (g a)). P v"
    using Cons.prems assms set_Map_set[of _ pid ps "g a"] by blast
  from Cons.IH[OF this] show ?case by simp
qed


lemma fold_Map_set_distinct:
  "distinct (map pid ps) \<Longrightarrow> distinct (map pid (fold (\<lambda>x ps. Map_set pid ps (g x)) xs ps))"
  by (induction xs arbitrary: ps) (simp_all add: distinct_Map_set)

lemma startServer_ids_distinct: "ids_distinct (startServer sp sc so now)"
  unfolding ids_distinct_def players_startServer by (rule fold_Map_set_distinct) simp

lemma startServer_disconnected: "\<forall>p\<in>set (players (startServer sp sc so now)). \<not> connected p"
  unfolding players_startServer
  by (rule fold_Map_set_ball) (simp_all add: restorePlayer_def)

lemma startServer_connected_bound: "connected_bound (startServer sp sc so now)"
proof -
  have "filter connected (players (startServer sp sc so now)) = []"
    using startServer_disconnected by (simp add: filter_empty_conv)
  then show ?thesis unfolding connected_bound_def by simp
qed



lemmas eval_defs = run_def startServer_def initializeGame_def initializeColliders_def setColliders_def
  initializeObjects_def clearObjectColliders_def initializeFollowers_def FOLLOWER_TEMPLATES_def
  createGameState_def createFollowerState_def createPlayerState_def SPAWN_POINTS_def
  assignFollowersToPlayers_def getConnectedPlayers_def Map_get_def Map_has_def
  handleJoin_def or_else_def MAX_PLAYERS_def TILE_SIZE_def COLLIDER_TILE_SIZE_def Let_def
  getColliders_def enumerate_eq_zip restorePlayer_def

lemma Map_get_Map_set_same: "Map_get key (Map_set key xs v) (key v) = Some v"
  unfolding Map_get_def by (induction xs) auto

lemma handleJoin_success:
  assumes "length (filter connected (players s)) < MAX_PLAYERS"
  shows "\<exists>k p ev s'. handleJoin s c d newId now = (s', c\<lparr>playerId := Some k\<rparr>, Send (conn c) (WELCOME k (tick s') (filter connected (players s')) (followers s') (objects s') (getColliders s')) # ev) \<and>
           Map_get pid (players s') k = Some p \<and> connected p"
proof -
  define k where "k = (case j_playerId d of None \<Rightarrow> newId
                  | Some i \<Rightarrow> if i = [] \<or> \<not> Map_has pid (players s) i then newId else i)"
  define ch where "ch = (if j_character d = Some ''1'' then ''1''
                                      else if j_character d = Some ''2'' then ''2'' else ''1'')"
  define pl where "pl = (case Map_get pid (players s) k of
                    None \<Rightarrow>
                      (let existingPlayers = filter connected (players s);
                           spawnIndex = min (length existingPlayers) (length SPAWN_POINTS - 1);
                           spawn = SPAWN_POINTS ! spawnIndex
                       in (createPlayerState k (or_else (j_name d) ''Player'') ch now)
                            \<lparr> px := fst spawn * TILE_SIZE + TILE_SIZE / 2,
                              py := (snd spawn + 1) * TILE_SIZE \<rparr>)
                  | Some p \<Rightarrow>
                      p\<lparr> connected := True,
                         pname := or_else (j_name d) (pname p),
                         character := ch \<rparr>)"
  have pk: "pid pl = k" unfolding pl_def
    by (cases "Map_get pid (players s) k") (auto simp: Let_def createPlayerState_def dest: Map_get_Some)
  have pc: "connected pl" unfolding pl_def
    by (cases "Map_get pid (players s) k") (auto simp: Let_def createPlayerState_def)
  define s' where "s' = assignFollowersToPlayers (s\<lparr>players := Map_set pid (players s) pl\<rparr>)"
  have eq: "handleJoin s c d newId now = (s', c\<lparr>playerId := Some k\<rparr>,
     [Send (conn c) (WELCOME k (tick s') (filter connected (players s')) (followers s') (objects s') (getColliders s')),
      BroadcastToOthers (conn c) (PLAYER_JOINED pl), SaveState (players s')])"
    using assms unfolding handleJoin_def s'_def pl_def k_def ch_def Let_def by simp
  have "Map_get pid (players s') k = Some pl"
    unfolding s'_def using Map_get_Map_set_same[of pid "players s" pl] pk by simp
  with eq pc show ?thesis by blast
qed

lemma sqrt_gt_iff: "0 \<le> b \<Longrightarrow> (b < sqrt a) = (b * b < a)"
  by (metis real_sqrt_less_iff real_sqrt_abs2 abs_of_nonneg)


lemmas hug_defs = handleHug_def authenticated_def client_player_def HUG_PROXIMITY_THRESHOLD_def
  HUG_DURATION_def broadcastHugStarted_def sqrt_gt_iff handleDisconnect_def

lemma players_pair_room:
  "players pair_room =
     [\<lparr>pid = ''player_a'', pname = ''Ann'', character = ''1'', px = 500, py = 500, pvx = 0, pvy = 0,
       lastInputSeq = Num 0, lastInput = None, connected = True, lastUpdate = 0,
       hugging = False, hugEndTime = 0, sitting = False\<rparr>,
      \<lparr>pid = ''player_b'', pname = ''Bob'', character = ''1'', px = 530, py = 520, pvx = 0, pvy = 0,
       lastInputSeq = Num 0, lastInput = None, connected = True, lastUpdate = 0,
       hugging = False, hugEndTime = 0, sitting = False\<rparr>]"
  unfolding pair_room_def hug_saved_a_def hug_saved_b_def conn0_def conn1_def rejoin_as_def
  by (simp add: eval_defs)

lemma players_hug_room:
  "players hug_room =
     [\<lparr>pid = ''player_a'', pname = ''Ann'', character = ''1'', px = 500, py = 510, pvx = 0, pvy = 0,
       lastInputSeq = Num 0, lastInput = None, connected = True, lastUpdate = 0,
       hugging = True, hugEndTime = 3000, sitting = False\<rparr>,
      \<lparr>pid = ''player_b'', pname = ''Bob'', character = ''1'', px = 530, py = 510, pvx = 0, pvy = 0,
       lastInputSeq = Num 0, lastInput = None, connected = True, lastUpdate = 0,
       hugging = True, hugEndTime = 3000, sitting = False\<rparr>]"
  unfolding hug_room_def conn_a_def conn0_def
  by (simp add: run_def players_pair_room hug_defs Map_get_def)

lemma players_left_room:
  "players left_room =
     [\<lparr>pid = ''player_a'', pname = ''Ann'', character = ''1'', px = 500, py = 510, pvx = 0, pvy = 0,
       lastInputSeq = Num 0, lastInput = None, connected = True, lastUpdate = 0,
       hugging = True, hugEndTime = 3000, sitting = False\<rparr>,
      \<lparr>pid = ''player_b'', pname = ''Bob'', character = ''1'', px = 530, py = 510, pvx = 0, pvy = 0,
       lastInputSeq = Num 0, lastInput = None, connected = False, lastUpdate = 0,
       hugging = True, hugEndTime = 3000, sitting = False\<rparr>]"
  unfolding left_room_def conn_b_def conn1_def
  by (simp add: run_def players_hug_room hug_defs Map_get_def)

section \<open>C1: positions stay in the world\<close>







section \<open>C2: the room holds at most two connected players\<close>

text \<open>
  Claim C2. At most \<^verbatim>\<open>MAX_PLAYERS = 2\<close> players are connected in every state that the
  server reaches from its start. A join that arrives while two players are connected
  returns the state and the connection unchanged and sends the capacity error to that
  connection (when its socket is open), so no player is created; the connection is not
  closed, and a join of the same connection once fewer than two players are connected
  succeeds: the connection gets a \<^verbatim>\<open>playerId\<close> under which a connected player is
  registered, and the welcome message is sent to it.
\<close>

theorem C2_capacity:
  "connected_bound (run (startServer savedPlayers savedColliders savedObjects t0) acts) \<and>
   (MAX_PLAYERS \<le> length (filter connected (players s)) \<longrightarrow>
      handleJoin s c d newId now = (s, c, sendError c ''Room is full. Maximum 2 players allowed.'') \<and>
      (isOpen c \<longrightarrow> sendError c ''Room is full. Maximum 2 players allowed.'' =
                      [Send (conn c) (ERROR ''Room is full. Maximum 2 players allowed.'')])) \<and>
   (length (filter connected (players s)) < MAX_PLAYERS \<longrightarrow>
      (\<exists>k p ev s'. handleJoin s c d newId now =
           (s', c\<lparr>playerId := Some k\<rparr>,
            Send (conn c) (WELCOME k (tick s') (filter connected (players s')) (followers s')
                             (objects s') (getColliders s')) # ev) \<and>
         Map_get pid (players s') k = Some p \<and> connected p))"
  using run_connected_bound[OF startServer_connected_bound] handleJoin_full handleJoin_success
  by (simp add: sendError_def)

theorem C2_capacity_witness:
  "MAX_PLAYERS \<le> length (filter connected (players full_room)) \<and> isOpen conn2 \<and>
   handleJoin full_room conn2 (join_as ''Cy'') ''player_3'' 3 =
     (full_room, conn2, [Send 2 (ERROR ''Room is full. Maximum 2 players allowed.'')]) \<and>
   length (filter connected (players (run full_room [Close (conn1\<lparr>playerId := Some ''player_2''\<rparr>)]))) < MAX_PLAYERS \<and>
   (\<exists>k p ev s'. handleJoin (run full_room [Close (conn1\<lparr>playerId := Some ''player_2''\<rparr>)]) conn2 (join_as ''Cy'') ''player_3'' 4 =
           (s', conn2\<lparr>playerId := Some k\<rparr>,
            Send (conn conn2) (WELCOME k (tick s') (filter connected (players s')) (followers s')
                             (objects s') (getColliders s')) # ev) \<and>
         Map_get pid (players s') k = Some p \<and> connected p)"
proof -
  have h1: "MAX_PLAYERS \<le> length (filter connected (players full_room))"
    unfolding full_room_def empty_room_def conn0_def conn1_def join_as_def by (simp add: eval_defs)
  have h2: "isOpen conn2" "conn conn2 = 2" by (simp_all add: conn2_def)
  have h3: "length (filter connected (players (run full_room [Close (conn1\<lparr>playerId := Some ''player_2''\<rparr>)]))) < MAX_PLAYERS"
    unfolding full_room_def empty_room_def conn0_def conn1_def join_as_def
    by (simp add: eval_defs handleDisconnect_def authenticated_def client_player_def)
  show ?thesis
    using h1 h2 h3
      C2_capacity[of "[]" "[]" "[]" 0 "[]" full_room conn2 "join_as ''Cy''" "''player_3''" 3]
      C2_capacity[of "[]" "[]" "[]" 0 "[]" "run full_room [Close (conn1\<lparr>playerId := Some ''player_2''\<rparr>)]" conn2 "join_as ''Cy''" "''player_3''" 4]
    by simp
qed

section \<open>C6: axis separation\<close>

lemma isCollidable_bench_only:
  assumes "dynamicColliders s = []" "objectColliders s = []" "isCollidable s x y"
  shows "2728 \<le> x \<and> x \<le> 2792 \<and> 1474 \<le> y \<and> y \<le> 1506"
  using assms unfolding isCollidable_def hasColliderTile_def tile_collidable_def
    staticColliders_def in_collider_def BENCH_X_def BENCH_Y_def BENCH_SCALE_def BENCH_WIDTH_def
    BENCH_HEIGHT_def BENCH_COLLISION_SCALE_def
  by (auto split: prod.splits option.splits if_splits)

lemma canMoveTo_left_of_bench:
  assumes "dynamicColliders s = []" "objectColliders s = []" "x + 10 < 2728"
  shows "canMoveTo s x y"
proof -
  have "\<not> isCollidable s qx qy" if "qx \<le> x + 10" for qx qy
    using isCollidable_bench_only[OF assms(1,2), of qx qy] that assms(3) by auto
  then show ?thesis unfolding canMoveTo_def checkPoints_def PLAYER_RADIUS_def by simp
qed

lemma input_velocity_right_only: "input_velocity right_only = (125, 0)"
  by (simp add: input_velocity_def right_only_def PLAYER_SPEED_def)

lemma gameTick_nth:
  assumes "i < length (players s)"
  shows "players (fst (gameTick now s)) ! i = tickPlayer s now (endHug now (players s ! i))"
  using assms by (simp add: gameTick_players)

text \<open>
  Claim C6. For a connected player that is neither embracing nor seated and has a buffered
  input, one tick tests the destination with only X changed first and commits it iff
  \<^verbatim>\<open>canMoveTo\<close> accepts it, otherwise the X velocity is zero after the tick; then it tests
  the Y move at the X just decided and commits it iff accepted, otherwise the Y velocity
  is zero; the position is then clamped. In particular a player at \<open>(100, 100)\<close> with only
  the right key down and a free destination ends the tick at \<open>x = 106.25\<close>, \<open>y = 100\<close>.
\<close>

theorem C6_axis_separation:
  assumes "i < length (players s)" and "connected (players s ! i)"
    and "\<not> hugging (players s ! i)" and "\<not> sitting (players s ! i)"
    and "lastInput (players s ! i) = Some inp"
  shows "let p = players s ! i;
             q = players (fst (gameTick now s)) ! i;
             vx = fst (input_velocity (keys inp));
             vy = snd (input_velocity (keys inp));
             newX = px p + vx * (TICK_INTERVAL / 1000);
             newY = py p + vy * (TICK_INTERVAL / 1000);
             x1 = (if vx \<noteq> 0 \<and> canMoveTo s newX (py p) then newX else px p);
             y1 = (if vy \<noteq> 0 \<and> canMoveTo s x1 newY then newY else py p)
         in px q = clamp_x x1 \<and> py q = clamp_y y1 \<and>
            pvx q = (if vx \<noteq> 0 \<and> \<not> canMoveTo s newX (py p) then 0 else vx) \<and>
            pvy q = (if vy \<noteq> 0 \<and> \<not> canMoveTo s x1 newY then 0 else vy) \<and>
            (px p = 100 \<and> py p = 100 \<and> keys inp = right_only \<and> canMoveTo s 106.25 100 \<longrightarrow>
               px q = 106.25 \<and> py q = 100)"
proof -
  let ?p = "players s ! i"
  have e: "endHug now ?p = ?p" using assms(3) by (simp add: endHug_def hug_expires_def)
  have q: "players (fst (gameTick now s)) ! i = processPlayerInput s ?p inp now"
    using gameTick_nth[OF assms(1), of now] e assms(2-5) by (simp add: tickPlayer_def)
  show ?thesis
    unfolding q Let_def processPlayerInput_def clamp_x_def clamp_y_def
    by (simp add: split_beta input_velocity_right_only TICK_INTERVAL_def world_size)
qed

theorem C6_axis_separation_witness:
  "0 < length (players scenario_room) \<and> connected (players scenario_room ! 0) \<and>
   \<not> hugging (players scenario_room ! 0) \<and> \<not> sitting (players scenario_room ! 0) \<and>
   lastInput (players scenario_room ! 0) = Some scenario_input \<and>
   px (players scenario_room ! 0) = 100 \<and> py (players scenario_room ! 0) = 100 \<and>
   keys scenario_input = right_only \<and> canMoveTo scenario_room 106.25 100 \<and>
   px (players (fst (gameTick 50 scenario_room)) ! 0) = 106.25 \<and>
   py (players (fst (gameTick 50 scenario_room)) ! 0) = 100"
proof -
  have ps: "players scenario_room =
     [\<lparr>pid = ''player_7'', pname = ''Sam'', character = ''1'', px = 100, py = 100, pvx = 0, pvy = 0,
       lastInputSeq = Num 0, lastInput = Some scenario_input, connected = True, lastUpdate = 0,
       hugging = False, hugEndTime = 0, sitting = False\<rparr>]"
    unfolding scenario_room_def scenario_saved_def conn0_def rejoin_as_def
    by (simp add: eval_defs handleInput_def authenticated_def client_player_def)
  have cs: "dynamicColliders scenario_room = []" "objectColliders scenario_room = []"
    unfolding scenario_room_def scenario_saved_def conn0_def rejoin_as_def
    by (simp_all add: eval_defs handleInput_def authenticated_def client_player_def)
  have free: "canMoveTo scenario_room 106.25 100"
    by (rule canMoveTo_left_of_bench[OF cs]) simp
  have k: "keys scenario_input = right_only" by (simp add: scenario_input_def)
  show ?thesis
    using C6_axis_separation[of 0 scenario_room scenario_input 50] free k
    by (simp add: ps Let_def)
qed

section \<open>C9: a client cannot choose a new identifier\<close>

lemma handleJoin_open:
  assumes "length (filter connected (players s)) < MAX_PLAYERS"
  shows "\<exists>pl. pid pl = (case j_playerId d of None \<Rightarrow> newId
                  | Some i \<Rightarrow> if i = [] \<or> \<not> Map_has pid (players s) i then newId else i) \<and>
     connected pl \<and>
     handleJoin s c d newId now =
       (assignFollowersToPlayers (s\<lparr>players := Map_set pid (players s) pl\<rparr>),
        c\<lparr>playerId := Some (pid pl)\<rparr>,
        [Send (conn c)
           (WELCOME (pid pl) (tick s) (filter connected (Map_set pid (players s) pl))
              (followers (assignFollowersToPlayers (s\<lparr>players := Map_set pid (players s) pl\<rparr>)))
              (objects s) (getColliders s)),
         BroadcastToOthers (conn c) (PLAYER_JOINED pl),
         SaveState (Map_set pid (players s) pl)])"
proof -
  define k where "k = (case j_playerId d of None \<Rightarrow> newId
                  | Some i \<Rightarrow> if i = [] \<or> \<not> Map_has pid (players s) i then newId else i)"
  define ch where "ch = (if j_character d = Some ''1'' then ''1''
                                      else if j_character d = Some ''2'' then ''2'' else ''1'')"
  define pl where "pl = (case Map_get pid (players s) k of
                    None \<Rightarrow>
                      (let existingPlayers = filter connected (players s);
                           spawnIndex = min (length existingPlayers) (length SPAWN_POINTS - 1);
                           spawn = SPAWN_POINTS ! spawnIndex
                       in (createPlayerState k (or_else (j_name d) ''Player'') ch now)
                            \<lparr> px := fst spawn * TILE_SIZE + TILE_SIZE / 2,
                              py := (snd spawn + 1) * TILE_SIZE \<rparr>)
                  | Some p \<Rightarrow>
                      p\<lparr> connected := True,
                         pname := or_else (j_name d) (pname p),
                         character := ch \<rparr>)"
  have pk: "pid pl = k" unfolding pl_def
    by (cases "Map_get pid (players s) k") (auto simp: Let_def createPlayerState_def dest: Map_get_Some)
  have pc: "connected pl" unfolding pl_def
    by (cases "Map_get pid (players s) k") (auto simp: Let_def createPlayerState_def)
  have fields: "tick (assignFollowersToPlayers t) = tick t"
      "objects (assignFollowersToPlayers t) = objects t"
      "dynamicColliders (assignFollowersToPlayers t) = dynamicColliders t" for t
    by (simp_all add: assignFollowersToPlayers_def Let_def)
  have eq: "handleJoin s c d newId now =
       (assignFollowersToPlayers (s\<lparr>players := Map_set pid (players s) pl\<rparr>),
        c\<lparr>playerId := Some k\<rparr>,
        [Send (conn c)
           (WELCOME k (tick s) (filter connected (Map_set pid (players s) pl))
              (followers (assignFollowersToPlayers (s\<lparr>players := Map_set pid (players s) pl\<rparr>)))
              (objects s) (getColliders s)),
         BroadcastToOthers (conn c) (PLAYER_JOINED pl),
         SaveState (Map_set pid (players s) pl)])"
    using assms unfolding handleJoin_def pl_def k_def ch_def Let_def
    by (simp add: fields getColliders_def)
  show ?thesis using eq pk pc unfolding k_def by (intro exI[of _ pl]) simp
qed

text \<open>
  Claim C9. A join whose \<^verbatim>\<open>playerId\<close> is not a key of the player registry never brings
  that identifier into the registry: the keys after the join are the keys before it
  and at most the generated identifier; when the room has a free slot the player is
  registered under the generated identifier, which is also what the connection gets;
  when the room is full nothing changes.
\<close>

theorem C9_fresh_identifier:
  assumes "j_playerId d = Some i" and "\<not> Map_has pid (players s) i"
    and "handleJoin s c d newId now = (s', c', ev)"
  shows "set (map pid (players s')) \<subseteq> insert newId (set (map pid (players s))) \<and>
         (i \<noteq> newId \<longrightarrow> \<not> Map_has pid (players s') i) \<and>
         (length (filter connected (players s)) < MAX_PLAYERS \<longrightarrow>
            playerId c' = Some newId \<and> Map_has pid (players s') newId) \<and>
         (MAX_PLAYERS \<le> length (filter connected (players s)) \<longrightarrow> s' = s \<and> c' = c)"
proof (cases "length (filter connected (players s)) < MAX_PLAYERS")
  case False
  then have "handleJoin s c d newId now = (s, c, sendError c ''Room is full. Maximum 2 players allowed.'')"
    by (simp add: handleJoin_full)
  with assms False show ?thesis by (auto simp: Map_has_iff)
next
  case True
  from handleJoin_open[OF True, where d=d and newId=newId and c=c and now=now] assms(1,2)
  obtain pl where pl: "pid pl = newId"
    "handleJoin s c d newId now =
       (assignFollowersToPlayers (s\<lparr>players := Map_set pid (players s) pl\<rparr>),
        c\<lparr>playerId := Some (pid pl)\<rparr>,
        [Send (conn c)
           (WELCOME (pid pl) (tick s) (filter connected (Map_set pid (players s) pl))
              (followers (assignFollowersToPlayers (s\<lparr>players := Map_set pid (players s) pl\<rparr>)))
              (objects s) (getColliders s)),
         BroadcastToOthers (conn c) (PLAYER_JOINED pl),
         SaveState (Map_set pid (players s) pl)])"
    by auto
  have s': "players s' = Map_set pid (players s) pl" and c': "c' = c\<lparr>playerId := Some newId\<rparr>"
    using pl assms(3) by auto
  have ids: "set (map pid (players s')) = insert newId (set (map pid (players s)))"
    unfolding s' using pl(1) by (auto simp: map_key_Map_set)
  show ?thesis using ids c' True assms(2) by (auto simp: Map_has_iff)
qed

theorem C9_fresh_identifier_witness:
  "j_playerId stranger_join = Some ''admin'' \<and> \<not> Map_has pid (players empty_room) ''admin'' \<and>
   ''admin'' \<noteq> ''player_1'' \<and> length (filter connected (players empty_room)) < MAX_PLAYERS \<and>
   map pid (players (fst (handleJoin empty_room conn0 stranger_join ''player_1'' 1))) = [''player_1''] \<and>
   playerId (fst (snd (handleJoin empty_room conn0 stranger_join ''player_1'' 1))) = Some ''player_1'' \<and>
   \<not> Map_has pid (players (fst (handleJoin empty_room conn0 stranger_join ''player_1'' 1))) ''admin''"
proof -
  have h: "j_playerId stranger_join = Some ''admin''" "\<not> Map_has pid (players empty_room) ''admin''"
     "length (filter connected (players empty_room)) < MAX_PLAYERS"
    by (simp_all add: stranger_join_def empty_room_def eval_defs)
  have e: "map pid (players (fst (handleJoin empty_room conn0 stranger_join ''player_1'' 1))) = [''player_1'']"
    by (simp add: stranger_join_def empty_room_def conn0_def eval_defs)
  obtain s' c' ev where r: "handleJoin empty_room conn0 stranger_join ''player_1'' 1 = (s', c', ev)"
    by (cases "handleJoin empty_room conn0 stranger_join ''player_1'' 1") auto
  show ?thesis using C9_fresh_identifier[OF h(1,2) r] h e r by simp
qed

section \<open>How the registry of players evolves\<close>

lemma seq_kept_refl [simp]: "seq_kept a a"
  by (simp add: seq_kept_def)

lemma js_less_trans: "js_less a b \<Longrightarrow> js_less b c \<Longrightarrow> js_less a c"
  by (cases a; cases b; cases c) simp_all

lemma js_less_irrefl [simp]: "\<not> js_less a a"
  by (cases a) simp_all

lemma js_less_NaN [simp]: "\<not> js_less a NaN" "\<not> js_less NaN a"
  by (cases a, simp_all)+

lemma seq_kept_trans: "seq_kept a b \<Longrightarrow> seq_kept b c \<Longrightarrow> seq_kept a c"
  unfolding seq_kept_def using js_less_trans by (cases "c = NaN") auto

lemma seq_kept_Math_max [simp]: "seq_kept a (Math_max a b)"
  unfolding seq_kept_def by (cases a; cases b) auto

lemma seq_kept_not_less: "seq_kept a b \<Longrightarrow> \<not> js_less b a"
  unfolding seq_kept_def using js_less_trans[of a b a] by auto

lemma seq_kept_NaN: "seq_kept NaN b \<Longrightarrow> b = NaN"
  by (auto simp: seq_kept_def)

lemma evolves_refl: "evolves p p"
  by (simp add: evolves_def)

lemma distinct_pid_eq:
  assumes "distinct (map pid ps)" "v \<in> set ps" "i < length ps" "pid (ps ! i) = pid v"
  shows "ps ! i = v"
proof -
  from assms(2) obtain j where j: "j < length ps" "ps ! j = v" by (auto simp: in_set_conv_nth)
  from assms(1) have "\<forall>a<length ps. \<forall>b<length ps. a \<noteq> b \<longrightarrow> pid (ps ! a) \<noteq> pid (ps ! b)"
    by (simp add: distinct_conv_nth)
  then have "i = j" using assms(3,4) j by blast
  then show ?thesis using j by simp
qed

lemma nth_Map_update_distinct:
  assumes "distinct (map pid ps)" "v \<in> set ps" "i < length ps"
  shows "Map_update pid ps (pid v) f ! i = (if ps ! i = v then f v else ps ! i)"
proof -
  from nth_Map_update[OF assms(3), of pid "pid v" f]
  consider "Map_update pid ps (pid v) f ! i = ps ! i" |
     "pid (ps ! i) = pid v" "Map_update pid ps (pid v) f ! i = f (ps ! i)" by blast
  then show ?thesis
  proof cases
    case 1
    have "ps ! i \<noteq> v \<or> f v = v"
    proof (rule ccontr)
      assume a: "\<not> (ps ! i \<noteq> v \<or> f v = v)"
      then have eq: "ps ! i = v" by simp
      have "Map_update pid ps (pid v) f ! i = f v" using assms(1,3) eq
      proof (induction ps arbitrary: i)
        case Nil then show ?case by simp
      next
        case (Cons a ps)
        show ?case
        proof (cases i)
          case 0 then show ?thesis using Cons.prems by simp
        next
          case (Suc n)
          have "pid a \<noteq> pid v" using Cons.prems Suc by (auto simp: image_iff)
          then show ?thesis using Cons Suc by simp
        qed
      qed
      with 1 eq a show False by simp
    qed
    with 1 show ?thesis by auto
  next
    case 2
    have "ps ! i = v" by (rule distinct_pid_eq[OF assms 2(1)])
    with 2 show ?thesis by simp
  qed
qed

lemma evolves_update:
  assumes "distinct (map pid ps)" "v \<in> set ps" "i < length ps" "evolves v (f v)"
  shows "evolves (ps ! i) (Map_update pid ps (pid v) f ! i)"
  using nth_Map_update_distinct[OF assms(1-3), of f] assms(4) by (simp add: evolves_refl)

lemma length_Map_set: "length xs \<le> length (Map_set key xs v)"
  by (induction xs) auto

lemma nth_Map_set:
  "i < length xs \<Longrightarrow> Map_set key xs v ! i = xs ! i \<or> (key (xs ! i) = key v \<and> Map_set key xs v ! i = v)"
  by (induction xs arbitrary: i) (auto simp: nth_Cons split: nat.splits)

lemma grows_same: "players s' = players s \<Longrightarrow> grows s s'"
  by (simp add: grows_def evolves_refl)

lemma grows_update:
  assumes "ids_distinct s" "v \<in> set (players s)" "evolves v (f v)"
    and "players s' = Map_update pid (players s) (pid v) f"
  shows "grows s s'"
  using assms evolves_update[of "players s" v _ f] by (simp add: grows_def ids_distinct_def)

lemma handleJoin_grows:
  assumes "ids_distinct s" shows "grows s (fst (handleJoin s c d newId now))"
  using handleJoin_players[of s c d newId now]
proof (elim disjE exE conjE)
  assume "players (fst (handleJoin s c d newId now)) = players s"
  then show ?thesis by (rule grows_same)
next
  fix player :: player
  assume eq: "players (fst (handleJoin s c d newId now)) = Map_set pid (players s) player"
    and none: "Map_get pid (players s) (pid player) = None"
  have "Map_set pid (players s) player ! i = players s ! i" if "i < length (players s)" for i
  proof -
    have "pid (players s ! i) \<noteq> pid player"
      using none nth_mem[OF that] by (metis Map_get_None imageI)
    then show ?thesis using nth_Map_set[OF that, of pid player] by blast
  qed
  then show ?thesis unfolding grows_def eq by (simp add: length_Map_set evolves_refl)
next
  fix player p :: player and nm ch
  assume eq: "players (fst (handleJoin s c d newId now)) = Map_set pid (players s) player"
    and some: "Map_get pid (players s) (pid player) = Some p"
    and pl: "player = p\<lparr>connected := True, pname := nm, character := ch\<rparr>"
  have p: "p \<in> set (players s)" "pid p = pid player" using Map_get_Some[OF some] by auto
  have ev: "evolves p player" unfolding pl by (simp add: evolves_def)
  have "evolves (players s ! i) (Map_set pid (players s) player ! i)" if "i < length (players s)" for i
  proof -
    from nth_Map_set[OF that, of pid player]
    show ?thesis
    proof
      assume "Map_set pid (players s) player ! i = players s ! i"
      then show ?thesis by (simp add: evolves_refl)
    next
      assume a: "pid (players s ! i) = pid player \<and> Map_set pid (players s) player ! i = player"
      then have "players s ! i = p"
        using distinct_pid_eq[OF assms[unfolded ids_distinct_def] p(1) that] p(2) by simp
      with a ev show ?thesis by simp
    qed
  qed
  then show ?thesis unfolding grows_def eq by (simp add: length_Map_set)
qed

lemma handleInput_grows:
  assumes "ids_distinct s" shows "grows s (fst (handleInput s c i))"
  using handleInput_players[of s c i]
proof (elim disjE exE conjE)
  fix v assume "v \<in> set (players s)" "players (fst (handleInput s c i)) =
        Map_update pid (players s) (pid v) (\<lambda>p. p\<lparr>lastInput := i\<rparr>)"
  then show ?thesis by (intro grows_update[OF assms]) (simp_all add: evolves_def)
qed (rule grows_same)

lemma handleResetPosition_grows:
  assumes "ids_distinct s" shows "grows s (fst (handleResetPosition s c now))"
  using handleResetPosition_players[of s c now]
proof (elim disjE exE conjE)
  fix v assume "v \<in> set (players s)" "players (fst (handleResetPosition s c now)) =
        Map_update pid (players s) (pid v)
          (\<lambda>p. p\<lparr>pvx := 0, pvy := 0, px := 1604.97, py := 802.74, lastUpdate := now\<rparr>)"
  then show ?thesis by (intro grows_update[OF assms]) (simp_all add: evolves_def)
qed (rule grows_same)

lemma handleBenchSit_grows:
  assumes "ids_distinct s" shows "grows s (fst (handleBenchSit s c now))"
  using handleBenchSit_players[of s c now]
proof (elim disjE exE conjE)
  fix v :: player and X :: real
  assume "v \<in> set (players s)" "players (fst (handleBenchSit s c now)) = Map_update pid (players s) (pid v)
         (\<lambda>p. p\<lparr>px := X, py := BENCH_Y, pvx := 0, pvy := 0, sitting := True, lastUpdate := now\<rparr>)"
  then show ?thesis by (intro grows_update[OF assms]) (simp_all add: evolves_def)
next
  fix v :: player and X :: real
  assume "v \<in> set (players s)" "players (fst (handleBenchSit s c now)) = Map_update pid (players s) (pid v)
         (\<lambda>p. p\<lparr>px := X, py := BENCH_Y, pvx := 0, pvy := 0, sitting := True, lastUpdate := now\<rparr>)"
  then show ?thesis by (intro grows_update[OF assms]) (simp_all add: evolves_def)
qed (rule grows_same)

lemma handleBenchStand_grows:
  assumes "ids_distinct s" shows "grows s (fst (handleBenchStand s c now))"
  using handleBenchStand_players[of s c now]
proof (elim disjE exE conjE)
  fix v :: player and X :: real
  assume "v \<in> set (players s)" "players (fst (handleBenchStand s c now)) = Map_update pid (players s) (pid v)
         (\<lambda>p. p\<lparr>px := X, py := BENCH_Y, pvx := 0, pvy := 0, sitting := False, lastUpdate := now\<rparr>)"
  then show ?thesis by (intro grows_update[OF assms]) (simp_all add: evolves_def)
next
  fix v :: player and X :: real
  assume "v \<in> set (players s)" "players (fst (handleBenchStand s c now)) = Map_update pid (players s) (pid v)
         (\<lambda>p. p\<lparr>px := X, py := BENCH_Y, pvx := 0, pvy := 0, sitting := False, lastUpdate := now\<rparr>)"
  then show ?thesis by (intro grows_update[OF assms]) (simp_all add: evolves_def)
qed (rule grows_same)

lemma handleDisconnect_grows:
  assumes "ids_distinct s" shows "grows s (fst (handleDisconnect s c))"
  using handleDisconnect_players[of s c]
proof (elim disjE exE conjE)
  fix v assume "v \<in> set (players s)" "players (fst (handleDisconnect s c)) =
        Map_update pid (players s) (pid v) (\<lambda>p. p\<lparr>connected := False\<rparr>)"
  then show ?thesis by (intro grows_update[OF assms]) (simp_all add: evolves_def)
qed (rule grows_same)

lemma handleHug_grows:
  assumes "ids_distinct s" shows "grows s (fst (handleHug s c now))"
  using handleHug_players[of s c now]
proof (elim disjE exE conjE)
  fix u v :: player
  let ?f = "\<lambda>p. p\<lparr>py := (py u + py v) / 2, hugging := True,
                     hugEndTime := now + HUG_DURATION, pvx := 0, pvy := 0\<rparr>"
  let ?ps1 = "Map_update pid (players s) (pid u) ?f"
  assume uv: "u \<in> set (players s)" "v \<in> set (players s)" "connected u" "connected v"
      "pid u \<noteq> pid v"
    and eq: "players (fst (handleHug s c now)) = Map_update pid ?ps1 (pid v) ?f"
  have d: "distinct (map pid (players s))" using assms by (simp add: ids_distinct_def)
  have d1: "distinct (map pid ?ps1)" using d by (simp add: pids_Map_update)
  have v1: "v \<in> set ?ps1"
  proof -
    from uv(2) obtain j where j: "j < length (players s)" "players s ! j = v"
      by (auto simp: in_set_conv_nth)
    have "?ps1 ! j = v" using nth_Map_update_distinct[OF d uv(1) j(1), of ?f] j(2) uv(5) by auto
    then show ?thesis using j(1) by (metis length_Map_update nth_mem)
  qed
  have "evolves (players s ! i) (Map_update pid ?ps1 (pid v) ?f ! i)" if i: "i < length (players s)" for i
  proof -
    have i1: "i < length ?ps1" using i by simp
    have a: "Map_update pid ?ps1 (pid v) ?f ! i = (if ?ps1 ! i = v then ?f v else ?ps1 ! i)"
      by (rule nth_Map_update_distinct[OF d1 v1 i1])
    have b: "?ps1 ! i = (if players s ! i = u then ?f u else players s ! i)"
      by (rule nth_Map_update_distinct[OF d uv(1) i])
    show ?thesis
    proof (cases "players s ! i = u")
      case True
      then have "?ps1 ! i = ?f u" using b by simp
      moreover have "?f u \<noteq> v"
      proof
        assume h: "?f u = v"
        from arg_cong[OF h, of pid] uv(5) show False by simp
      qed
      ultimately show ?thesis using a True uv(3) by (simp add: evolves_def)
    next
      case False
      then have c: "?ps1 ! i = players s ! i" using b by simp
      show ?thesis
      proof (cases "players s ! i = v")
        case True then show ?thesis using a c uv(4) by (simp add: evolves_def)
      next
        case False then show ?thesis using a c by (simp add: evolves_refl)
      qed
    qed
  qed
  then show ?thesis unfolding grows_def eq by simp
qed (rule grows_same)

lemma gameTick_grows: "grows s (fst (gameTick now s))"
proof -
  have "evolves p (tickPlayer s now (endHug now p))" for p
  proof (cases "connected p")
    case True
    then show ?thesis
      by (simp add: evolves_def tickPlayer_def split: option.splits)
  next
    case False
    then show ?thesis by (simp add: evolves_def tickPlayer_def endHug_def hug_expires_def)
  qed
  then show ?thesis by (simp add: grows_def gameTick_players)
qed

lemma handleMessage_grows:
  assumes "ids_distinct s" shows "grows s (fst (handleMessage s c m newId now))"
  unfolding fst_handleMessage
  by (cases m)
     (simp_all add: handleJoin_grows[OF assms] handleInput_grows[OF assms]
        handleResetPosition_grows[OF assms] handleHug_grows[OF assms]
        handleBenchSit_grows[OF assms] handleBenchStand_grows[OF assms] grows_same)

lemma step_grows:
  assumes "ids_distinct s" shows "grows s (step s a)"
proof (cases a)
  case (Message c m newId now) then show ?thesis using handleMessage_grows[OF assms] by simp
next
  case (Tick now) then show ?thesis using gameTick_grows by simp
next
  case (Close c) then show ?thesis using handleDisconnect_grows[OF assms] by simp
qed

lemma run_Cons: "run s (a # acts) = run (step s a) acts"
  by (simp add: run_def)

lemma run_keeps_player:
  assumes "ids_distinct s" "i < length (players s)"
  shows "i < length (players (run s acts)) \<and>
         pid (players (run s acts) ! i) = pid (players s ! i) \<and>
         seq_kept (lastInputSeq (players s ! i)) (lastInputSeq (players (run s acts) ! i))"
  using assms
proof (induction acts arbitrary: s)
  case Nil then show ?case by (simp add: run_def)
next
  case (Cons a acts)
  have g: "grows s (step s a)" by (rule step_grows[OF Cons.prems(1)])
  then have i: "i < length (players (step s a))" and e: "evolves (players s ! i) (players (step s a) ! i)"
    using Cons.prems(2) by (auto simp: grows_def)
  note ih = Cons.IH[OF step_ids_distinct[OF Cons.prems(1)] i]
  have "seq_kept (lastInputSeq (players s ! i)) (lastInputSeq (players (run (step s a) acts) ! i))"
    using e ih seq_kept_trans by (auto simp: evolves_def)
  with ih e show ?case by (simp add: run_Cons evolves_def)
qed

lemma run_disconnected_hug:
  assumes "ids_distinct s" "i < length (players s)"
    and "\<forall>n\<le>length acts. \<not> connected (players (run s (take n acts)) ! i)"
  shows "hugging (players (run s acts) ! i) = hugging (players s ! i) \<and>
         hugEndTime (players (run s acts) ! i) = hugEndTime (players s ! i)"
  using assms
proof (induction acts arbitrary: s)
  case Nil then show ?case by (simp add: run_def)
next
  case (Cons a acts)
  have g: "grows s (step s a)" by (rule step_grows[OF Cons.prems(1)])
  then have i: "i < length (players (step s a))" and e: "evolves (players s ! i) (players (step s a) ! i)"
    using Cons.prems(2) by (auto simp: grows_def)
  have d0: "\<not> connected (players s ! i)" using Cons.prems(3)[rule_format, of 0] by (simp add: run_def)
  have later: "\<forall>n\<le>length acts. \<not> connected (players (run (step s a) (take n acts)) ! i)"
  proof (intro allI impI)
    fix n assume "n \<le> length acts"
    then show "\<not> connected (players (run (step s a) (take n acts)) ! i)"
      using Cons.prems(3)[rule_format, of "Suc n"] by (simp add: run_Cons)
  qed
  from Cons.IH[OF step_ids_distinct[OF Cons.prems(1)] i later] e d0
  show ?case by (simp add: run_Cons evolves_def)
qed

section \<open>C10: the tick leaves a disconnected player's embrace alone\<close>

lemma hug_ended_sent:
  assumes "BroadcastAll (HUG_ENDED k) \<in> set (snd (gameTick now s))"
  shows "\<exists>q\<in>set (players s). pid q = k \<and> connected q"
proof -
  from assms have "BroadcastAll (HUG_ENDED k) \<in>
      set (concat (map (\<lambda>p. if hug_expires now p then broadcastHugEnded (pid p) else []) (players s)))"
    by (simp add: gameTick_effects broadcastState_def)
  then show ?thesis
    by (auto simp: broadcastHugEnded_def hug_expires_def split: if_splits)
qed

text \<open>
  Claim C10. A tick leaves a player with \<^verbatim>\<open>connected = false\<close> unchanged, in particular
  its \<^verbatim>\<open>hugging\<close> flag and \<^verbatim>\<open>hugEndTime\<close>, whatever the time, and sends no \<^verbatim>\<open>hug_ended\<close>
  for its identifier; and through any sequence of messages, ticks and closes during which
  the player stays disconnected, its \<^verbatim>\<open>hugging\<close> flag and \<^verbatim>\<open>hugEndTime\<close> keep their
  values, so a disconnected embracing player stays embracing until it has reconnected.
\<close>

theorem C10_disconnected_embrace_kept:
  assumes "i < length (players s)" and "\<not> connected (players s ! i)"
  shows "players (fst (gameTick now s)) ! i = players s ! i \<and>
         (ids_distinct s \<longrightarrow>
            BroadcastAll (HUG_ENDED (pid (players s ! i))) \<notin> set (snd (gameTick now s))) \<and>
         (ids_distinct s \<and> (\<forall>n\<le>length acts. \<not> connected (players (run s (take n acts)) ! i)) \<longrightarrow>
            hugging (players (run s acts) ! i) = hugging (players s ! i) \<and>
            hugEndTime (players (run s acts) ! i) = hugEndTime (players s ! i))"
proof (intro conjI impI)
  show "players (fst (gameTick now s)) ! i = players s ! i"
    using assms by (simp add: gameTick_players tickPlayer_def endHug_def hug_expires_def)
next
  assume d: "ids_distinct s"
  show "BroadcastAll (HUG_ENDED (pid (players s ! i))) \<notin> set (snd (gameTick now s))"
  proof
    assume "BroadcastAll (HUG_ENDED (pid (players s ! i))) \<in> set (snd (gameTick now s))"
    from hug_ended_sent[OF this] obtain q where q: "q \<in> set (players s)"
      "pid q = pid (players s ! i)" "connected q" by blast
    have "players s ! i = q"
      using distinct_pid_eq[OF d[unfolded ids_distinct_def] q(1) assms(1)] q(2) by simp
    with q(3) assms(2) show False by simp
  qed
next
  assume "ids_distinct s \<and> (\<forall>n\<le>length acts. \<not> connected (players (run s (take n acts)) ! i))"
  then show "hugging (players (run s acts) ! i) = hugging (players s ! i)"
      "hugEndTime (players (run s acts) ! i) = hugEndTime (players s ! i)"
    using run_disconnected_hug[OF _ assms(1), of acts] by simp_all
qed

theorem C10_disconnected_embrace_kept_witness:
  "1 < length (players left_room) \<and> \<not> connected (players left_room ! 1) \<and>
   ids_distinct left_room \<and>
   hugging (players left_room ! 1) \<and> hugEndTime (players left_room ! 1) = 3000 \<and>
   pid (players left_room ! 1) = ''player_b'' \<and>
   \<not> connected (players (run left_room (take 0 [Tick 5000])) ! 1) \<and>
   \<not> connected (players (run left_room (take 1 [Tick 5000])) ! 1) \<and>
   players (fst (gameTick 5000 left_room)) ! 1 = players left_room ! 1 \<and>
   BroadcastAll (HUG_ENDED ''player_b'') \<notin> set (snd (gameTick 5000 left_room)) \<and>
   hugging (players (run left_room [Tick 5000]) ! 1) \<and>
   hugEndTime (players (run left_room [Tick 5000]) ! 1) = 3000"
proof -
  have d: "ids_distinct left_room"
    unfolding left_room_def hug_room_def pair_room_def
    by (intro run_ids_distinct startServer_ids_distinct)
  have l: "1 < length (players left_room)" "\<not> connected (players left_room ! 1)"
     "hugging (players left_room ! 1)" "hugEndTime (players left_room ! 1) = 3000"
     "pid (players left_room ! 1) = ''player_b''"
    by (simp_all add: players_left_room)
  have c0: "\<not> connected (players (run left_room (take 0 [Tick 5000])) ! 1)"
    using l(2) by (simp add: run_def)
  have c1: "\<not> connected (players (run left_room (take 1 [Tick 5000])) ! 1)"
    using l(1,2) by (simp add: run_def gameTick_players)
  have all: "\<forall>n\<le>length [Tick 5000]. \<not> connected (players (run left_room (take n [Tick 5000])) ! 1)"
  proof (intro allI impI)
    fix n :: nat assume "n \<le> length [Tick 5000]"
    then have "n = 0 \<or> n = 1" by auto
    then show "\<not> connected (players (run left_room (take n [Tick 5000])) ! 1)"
      using c0 c1 by auto
  qed
  show ?thesis
    using C10_disconnected_embrace_kept[OF l(1,2), of 5000 "[Tick 5000]"] d l c0 c1 all
    by simp
qed

section \<open>C3: the embrace\<close>










section \<open>C8: the buffered input and the acknowledged sequence number\<close>

lemma players_joined_room:
  "players joined_room =
     [\<lparr>pid = ''player_7'', pname = ''Sam'', character = ''1'', px = 100, py = 100, pvx = 0, pvy = 0,
       lastInputSeq = Num 0, lastInput = None, connected = True, lastUpdate = 0,
       hugging = False, hugEndTime = 0, sitting = False\<rparr>]"
  unfolding joined_room_def scenario_saved_def conn0_def rejoin_as_def
  by (simp add: eval_defs)

lemma handleInput_stores:
  assumes "authenticated c" "client_player s c = Some p" "connected p"
  shows "players (fst (handleInput s c inp)) =
           Map_update pid (players s) (pid p) (\<lambda>q. q\<lparr>lastInput := inp\<rparr>)"
  using assms unfolding handleInput_def by simp

lemma players_after_packet5:
  "players (fst (handleInput joined_room scenario_conn (Some packet5))) =
     [\<lparr>pid = ''player_7'', pname = ''Sam'', character = ''1'', px = 100, py = 100, pvx = 0, pvy = 0,
       lastInputSeq = Num 0, lastInput = Some packet5, connected = True, lastUpdate = 0,
       hugging = False, hugEndTime = 0, sitting = False\<rparr>]"
  by (simp add: handleInput_def authenticated_def client_player_def scenario_conn_def conn0_def
        players_joined_room Map_get_def)

lemma lastInputSeq_packets_run:
  "lastInputSeq (players (run joined_room packets_run) ! 0) = Num 3"
proof -
  define s1 where "s1 = step joined_room (Message scenario_conn (INPUT (Some packet5)) [] 10)"
  define p1 where "p1 = \<lparr>pid = ''player_7'', pname = ''Sam'', character = ''1'', px = 100, py = 100,
       pvx = 0, pvy = 0, lastInputSeq = Num 0, lastInput = Some packet5, connected = True,
       lastUpdate = 0, hugging = False, hugEndTime = 0, sitting = False\<rparr>"
  have 1: "players s1 = [p1]"
    unfolding s1_def p1_def using players_after_packet5
    by (simp del: handleMessage.simps add: fst_handleMessage)
  have a: "authenticated scenario_conn" by (simp add: authenticated_def scenario_conn_def)
  have cp: "client_player s1 scenario_conn = Some p1"
    by (simp add: client_player_def scenario_conn_def 1 Map_get_def p1_def)
  have c: "connected p1" "pid p1 = ''player_7''" by (simp_all add: p1_def)
  have 2: "players (step s1 (Message scenario_conn (INPUT (Some packet3)) [] 20)) =
             [p1\<lparr>lastInput := Some packet3\<rparr>]"
    using handleInput_stores[OF a cp c(1), of "Some packet3"]
    by (simp del: handleMessage.simps add: fst_handleMessage 1 c)
  have 3: "seq packet3 = Num 3" by (simp add: packet3_def)
  show ?thesis
    unfolding packets_run_def
    by (simp del: step.simps(1) add: run_def s1_def[symmetric] gameTick_players 2 tickPlayer_def
          endHug_def hug_expires_def 3 p1_def)
qed

lemma lastInputSeq_nan_room: "lastInputSeq (players nan_room ! 0) = NaN"
proof -
  define p0 where "p0 = \<lparr>pid = ''player_7'', pname = ''Sam'', character = ''1'', px = 100, py = 100,
       pvx = 0, pvy = 0, lastInputSeq = Num 0, lastInput = None, connected = True,
       lastUpdate = 0, hugging = False, hugEndTime = 0, sitting = False\<rparr>"
  have 0: "players joined_room = [p0]" by (simp add: players_joined_room p0_def)
  have a: "authenticated scenario_conn" by (simp add: authenticated_def scenario_conn_def)
  have cp: "client_player joined_room scenario_conn = Some p0"
    by (simp add: client_player_def scenario_conn_def 0 Map_get_def p0_def)
  have c: "connected p0" "pid p0 = ''player_7''" by (simp_all add: p0_def)
  have 1: "players (step joined_room (Message scenario_conn (INPUT (Some nan_packet)) [] 60)) =
             [p0\<lparr>lastInput := Some nan_packet\<rparr>]"
    using handleInput_stores[OF a cp c(1), of "Some nan_packet"]
    by (simp del: handleMessage.simps add: fst_handleMessage 0 c)
  have 2: "seq nan_packet = NaN" by (simp add: nan_packet_def)
  show ?thesis
    unfolding nan_room_def nan_run_def
    by (simp del: step.simps(1) add: run_def gameTick_players 1 tickPlayer_def
          endHug_def hug_expires_def 2 p0_def)
qed

text \<open>
  Claim C8 says that receiving a packet records its sequence number as the last
  acknowledged one. \<^verbatim>\<open>handleInput\<close> only stores the packet: after the packet with
  sequence number 5 the acknowledged number is still 0, not \<^verbatim>\<open>Math.max(0, 5)\<close>; and when
  the packet with sequence number 3 replaces it before the tick fires, the tick records 3,
  so 5 is never recorded.
\<close>

theorem C8_receipt_counterexample:
  "lastInputSeq (players (fst (handleInput joined_room scenario_conn (Some packet5))) ! 0)
     \<noteq> Math_max (lastInputSeq (players joined_room ! 0)) (seq packet5) \<and>
   lastInput (players (fst (handleInput joined_room scenario_conn (Some packet5))) ! 0) = Some packet5 \<and>
   lastInputSeq (players (run joined_room packets_run) ! 0) = Num 3"
proof -
  have "seq packet5 = Num 5" by (simp add: packet5_def)
  then show ?thesis
    by (simp add: players_after_packet5 players_joined_room lastInputSeq_packets_run)
qed

text \<open>
  Claim C8, amended. An input packet is an object with a key state (one without makes the
  tick that applies it throw); its sequence number is whatever the client put there, read
  as \<^verbatim>\<open>Math.max\<close> reads it, so possibly \<^verbatim>\<open>NaN\<close>. For a connected player,
  \<^verbatim>\<open>handleInput\<close> replaces the buffered packet whatever it was and changes nothing else of
  the player, so the acknowledged sequence number stays. A tick sets the acknowledged
  number of a player to \<^verbatim>\<open>Math.max\<close> of its old value and the sequence number of the
  buffered packet when the player is connected, not seated, not embracing after the
  tick's expiry step, and has a buffered packet; it leaves it unchanged otherwise. For two
  numbers that is their maximum; it is \<^verbatim>\<open>NaN\<close> when the packet's sequence number is not a
  number, and \<^verbatim>\<open>NaN\<close> then stays. Through every sequence of messages, ticks and closes a
  player keeps its place and identifier in the registry and its acknowledged sequence
  number never decreases: the later value is never less than the earlier one, and it is
  the earlier one, a greater one, or \<^verbatim>\<open>NaN\<close>.
\<close>

theorem C8_sequence_numbers:
  "(authenticated c \<and> client_player s c = Some p \<and> connected p \<longrightarrow>
      Map_get pid (players (fst (handleInput s c inp))) (pid p) = Some (p\<lparr>lastInput := inp\<rparr>)) \<and>
   (i < length (players s) \<longrightarrow>
      lastInputSeq (players (fst (gameTick now s)) ! i) =
        (if connected (players s ! i) \<and> \<not> sitting (players s ! i) \<and>
            (hugging (players s ! i) \<longrightarrow> hug_expires now (players s ! i))
         then (case lastInput (players s ! i) of
                 None \<Rightarrow> lastInputSeq (players s ! i)
               | Some k \<Rightarrow> Math_max (lastInputSeq (players s ! i)) (seq k))
         else lastInputSeq (players s ! i))) \<and>
   Math_max (Num a) (Num b) = Num (max a b) \<and>
   Math_max n NaN = NaN \<and> Math_max NaN n = NaN \<and>
   (ids_distinct s \<and> i < length (players s) \<longrightarrow>
      i < length (players (run s acts)) \<and>
      pid (players (run s acts) ! i) = pid (players s ! i) \<and>
      \<not> js_less (lastInputSeq (players (run s acts) ! i)) (lastInputSeq (players s ! i)) \<and>
      (lastInputSeq (players (run s acts) ! i) = lastInputSeq (players s ! i) \<or>
       js_less (lastInputSeq (players s ! i)) (lastInputSeq (players (run s acts) ! i)) \<or>
       lastInputSeq (players (run s acts) ! i) = NaN) \<and>
      (lastInputSeq (players s ! i) = NaN \<longrightarrow> lastInputSeq (players (run s acts) ! i) = NaN))"
proof (intro conjI impI)
  assume a: "authenticated c \<and> client_player s c = Some p \<and> connected p"
  then have g: "Map_get pid (players s) (pid p) = Some p"
    by (auto simp: client_player_def split: option.splits dest: Map_get_Some)
  show "Map_get pid (players (fst (handleInput s c inp))) (pid p) = Some (p\<lparr>lastInput := inp\<rparr>)"
    using a handleInput_stores[of c s p inp] Map_get_Map_update_same[OF g, of "\<lambda>q. q\<lparr>lastInput := inp\<rparr>"]
    by simp
next
  assume i: "i < length (players s)"
  show "lastInputSeq (players (fst (gameTick now s)) ! i) =
        (if connected (players s ! i) \<and> \<not> sitting (players s ! i) \<and>
            (hugging (players s ! i) \<longrightarrow> hug_expires now (players s ! i))
         then (case lastInput (players s ! i) of
                 None \<Rightarrow> lastInputSeq (players s ! i)
               | Some k \<Rightarrow> Math_max (lastInputSeq (players s ! i)) (seq k))
         else lastInputSeq (players s ! i))"
    using i by (auto simp: gameTick_players tickPlayer_def endHug_def hug_expires_def split: option.splits)
next
  show "Math_max (Num a) (Num b) = Num (max a b)" by simp
  show "Math_max n NaN = NaN" by (cases n) simp_all
  show "Math_max NaN n = NaN" by simp
next
  assume h: "ids_distinct s \<and> i < length (players s)"
  then have r: "i < length (players (run s acts)) \<and>
         pid (players (run s acts) ! i) = pid (players s ! i) \<and>
         seq_kept (lastInputSeq (players s ! i)) (lastInputSeq (players (run s acts) ! i))"
    using run_keeps_player[of s i acts] by simp
  then show "i < length (players (run s acts))"
    "pid (players (run s acts) ! i) = pid (players s ! i)"
    by simp_all
  from r show "\<not> js_less (lastInputSeq (players (run s acts) ! i)) (lastInputSeq (players s ! i))"
    using seq_kept_not_less by blast
  from r show "lastInputSeq (players (run s acts) ! i) = lastInputSeq (players s ! i) \<or>
       js_less (lastInputSeq (players s ! i)) (lastInputSeq (players (run s acts) ! i)) \<or>
       lastInputSeq (players (run s acts) ! i) = NaN"
    by (auto simp: seq_kept_def)
  show "lastInputSeq (players (run s acts) ! i) = NaN" if "lastInputSeq (players s ! i) = NaN"
    using r that seq_kept_NaN by auto
qed

theorem C8_sequence_numbers_witness:
  "authenticated scenario_conn \<and>
   client_player joined_room scenario_conn = Some (players joined_room ! 0) \<and>
   connected (players joined_room ! 0) \<and>
   Map_get pid (players (fst (handleInput joined_room scenario_conn (Some packet5)))) ''player_7''
     = Some ((players joined_room ! 0)\<lparr>lastInput := Some packet5\<rparr>) \<and>
   0 < length (players scenario_room) \<and>
   lastInputSeq (players scenario_room ! 0) = Num 0 \<and>
   lastInputSeq (players (fst (gameTick 50 scenario_room)) ! 0) = Num 1 \<and>
   ids_distinct joined_room \<and> 0 < length (players joined_room) \<and>
   lastInputSeq (players joined_room ! 0) = Num 0 \<and>
   lastInputSeq (players (run joined_room packets_run) ! 0) = Num 3 \<and>
   \<not> js_less (lastInputSeq (players (run joined_room packets_run) ! 0))
              (lastInputSeq (players joined_room ! 0)) \<and>
   ids_distinct nan_room \<and> 0 < length (players nan_room) \<and>
   lastInputSeq (players nan_room ! 0) = NaN \<and>
   lastInputSeq (players (run nan_room after_nan_run) ! 0) = NaN"
proof -
  have h: "authenticated scenario_conn"
     "client_player joined_room scenario_conn = Some (players joined_room ! 0)"
     "connected (players joined_room ! 0)" "0 < length (players joined_room)"
     "pid (players joined_room ! 0) = ''player_7''"
     "lastInputSeq (players joined_room ! 0) = Num 0"
    by (simp_all add: authenticated_def client_player_def scenario_conn_def conn0_def
          players_joined_room Map_get_def)
  have d: "ids_distinct joined_room"
    unfolding joined_room_def by (intro run_ids_distinct startServer_ids_distinct)
  have d2: "ids_distinct nan_room"
    unfolding nan_room_def by (intro run_ids_distinct d)
  have ps: "players scenario_room =
     [\<lparr>pid = ''player_7'', pname = ''Sam'', character = ''1'', px = 100, py = 100, pvx = 0, pvy = 0,
       lastInputSeq = Num 0, lastInput = Some scenario_input, connected = True, lastUpdate = 0,
       hugging = False, hugEndTime = 0, sitting = False\<rparr>]"
    unfolding scenario_room_def scenario_saved_def conn0_def rejoin_as_def
    by (simp add: eval_defs handleInput_def authenticated_def client_player_def)
  have sc: "0 < length (players scenario_room)" "lastInputSeq (players scenario_room ! 0) = Num 0"
    by (simp_all add: ps)
  have l2: "0 < length (players nan_room)"
    using C8_sequence_numbers[of scenario_conn joined_room "players joined_room ! 0" "Some packet5"
         0 50 1 1 NaN nan_run] d h(4)
    by (simp add: nan_room_def)
  have t1: "lastInputSeq (players (fst (gameTick 50 scenario_room)) ! 0) = Num 1"
    using C8_sequence_numbers[of scenario_conn scenario_room "players joined_room ! 0" "Some packet5"
         0 50 1 1 NaN packets_run] sc(1)
    by (simp add: ps scenario_input_def)
  have t2: "Map_get pid (players (fst (handleInput joined_room scenario_conn (Some packet5)))) ''player_7''
     = Some ((players joined_room ! 0)\<lparr>lastInput := Some packet5\<rparr>)"
    using C8_sequence_numbers[of scenario_conn joined_room "players joined_room ! 0" "Some packet5"
         0 50 1 1 NaN packets_run] h
    by simp
  have t3: "\<not> js_less (lastInputSeq (players (run joined_room packets_run) ! 0))
              (lastInputSeq (players joined_room ! 0))"
    using C8_sequence_numbers[of scenario_conn joined_room "players joined_room ! 0" "Some packet5"
         0 50 1 1 NaN packets_run] d h(4)
    by simp
  have t4: "lastInputSeq (players (run nan_room after_nan_run) ! 0) = NaN"
    using C8_sequence_numbers[of scenario_conn nan_room "players joined_room ! 0" "Some packet5"
         0 50 1 1 NaN after_nan_run] d2 l2 lastInputSeq_nan_room
    by simp
  show ?thesis
    using h d d2 sc l2 t1 t2 t3 t4 lastInputSeq_nan_room lastInputSeq_packets_run by simp
qed

section \<open>C7: an overlapping display object is not placed\<close>

lemma objectsOverlap_stamp [simp]:
  "objectsOverlap e (ob\<lparr>createdAt := t, updatedAt := u\<rparr>) = objectsOverlap e ob"
  by (simp add: objectsOverlap_def getObjectBounds_def Let_def)

lemma Map_set_mem: "v \<in> set (Map_set key xs v)"
  by (induction xs) auto

lemma handlePlaceObject_overlap:
  assumes "normalizeObjectData (d\<lparr>raw_id := None, raw_createdAt := None, raw_updatedAt := None\<rparr>)
             newId now = Some ob"
    and "list_ex (\<lambda>existing. objectsOverlap existing ob) (objects s)"
  shows "handlePlaceObject s c d newId now =
           (s, if \<not> authenticated c then sendError c ''Not authenticated''
               else if ox ob < 0 \<or> ox ob > WORLD_WIDTH \<or> oy ob < 0 \<or> oy ob > WORLD_HEIGHT
               then sendError c ''Object coordinates out of bounds'' else [])"
  using assms unfolding handlePlaceObject_def by (simp add: Let_def)

lemma handlePlaceObject_placed:
  assumes "BroadcastAll (OBJECT_PLACED ob) \<in> set (snd (handlePlaceObject s c d newId now))"
  shows "(\<forall>e\<in>set (objects s). \<not> objectsOverlap e ob) \<and>
         ob \<in> set (objects (fst (handlePlaceObject s c d newId now))) \<and>
         set (objects (fst (handlePlaceObject s c d newId now))) \<subseteq> insert ob (set (objects s))"
proof -
  have ne: "BroadcastAll (OBJECT_PLACED ob) \<notin> set (sendError c e)" for e
    by (simp add: sendError_def)
  from assms ne obtain od where od:
    "normalizeObjectData (d\<lparr>raw_id := None, raw_createdAt := None, raw_updatedAt := None\<rparr>)
             newId now = Some od"
    "\<not> list_ex (\<lambda>existing. objectsOverlap existing od) (objects s)"
    "handlePlaceObject s c d newId now =
       (addObjectCollider (s\<lparr>objects := Map_set oid (objects s) (od\<lparr>createdAt := now, updatedAt := now\<rparr>)\<rparr>)
          (od\<lparr>createdAt := now, updatedAt := now\<rparr>),
        [BroadcastAll (OBJECT_PLACED (od\<lparr>createdAt := now, updatedAt := now\<rparr>)),
         SaveObjects (Map_set oid (objects s) (od\<lparr>createdAt := now, updatedAt := now\<rparr>))])"
    unfolding handlePlaceObject_def
    by (auto simp: Let_def addObjectCollider_def split: option.splits if_splits)
  from assms od(3) have ob: "ob = od\<lparr>createdAt := now, updatedAt := now\<rparr>" by simp
  have objs: "objects (fst (handlePlaceObject s c d newId now)) = Map_set oid (objects s) ob"
    unfolding od(3) ob by (simp add: addObjectCollider_def Let_def)
  have "ob \<in> set (Map_set oid (objects s) ob)" by (rule Map_set_mem)
  moreover have "set (Map_set oid (objects s) ob) \<subseteq> insert ob (set (objects s))"
    using set_Map_set[of _ oid "objects s" ob] by auto
  moreover have "\<forall>e\<in>set (objects s). \<not> objectsOverlap e ob"
    using od(2) unfolding ob by (simp add: list_ex_iff)
  ultimately show ?thesis unfolding objs by simp
qed

lemma normalize_poster:
  "normalizeObjectData ((poster_at x y)\<lparr>raw_id := None, raw_createdAt := None, raw_updatedAt := None\<rparr>) i t
     = Some (poster i x y t)"
  by (simp add: normalizeObjectData_def poster_at_def poster_def OBJECT_WIDTH_def OBJECT_HEIGHT_def)

lemma objects_pair_room: "objects pair_room = []"
  unfolding pair_room_def hug_saved_a_def hug_saved_b_def conn0_def conn1_def rejoin_as_def
  by (simp add: eval_defs)

lemma authenticated_conn_a: "authenticated conn_a"
  by (simp add: authenticated_def conn_a_def)

lemma objects_gallery: "objects gallery = [poster ''object_1'' 1000 1000 10]"
  unfolding gallery_def handlePlaceObject_def
  by (simp add: authenticated_conn_a normalize_poster objects_pair_room Let_def world_size
        addObjectCollider_def)
     (simp add: poster_def)

text \<open>
  Claim C7. When the object that a \<^verbatim>\<open>place_object\<close> request describes overlaps a stored
  display object, \<^verbatim>\<open>handlePlaceObject\<close> returns the whole state unchanged (the registry of
  objects, the rectangles derived from it and everything else) and broadcasts no
  \<^verbatim>\<open>object_placed\<close>; for a request that passed the earlier checks (a joined connection,
  coordinates in the world) nothing at all is sent, so there is no error message.
  Whenever \<^verbatim>\<open>object_placed\<close> is broadcast for an object, that object overlaps no object
  that was stored before, it is stored, and nothing else was added.
\<close>

theorem C7_overlap_rejected:
  "(normalizeObjectData (d\<lparr>raw_id := None, raw_createdAt := None, raw_updatedAt := None\<rparr>)
        newId now = Some ob \<and>
    list_ex (\<lambda>existing. objectsOverlap existing ob) (objects s) \<longrightarrow>
      fst (handlePlaceObject s c d newId now) = s \<and>
      (\<forall>placed. BroadcastAll (OBJECT_PLACED placed) \<notin> set (snd (handlePlaceObject s c d newId now))) \<and>
      (authenticated c \<and> 0 \<le> ox ob \<and> ox ob \<le> WORLD_WIDTH \<and> 0 \<le> oy ob \<and> oy ob \<le> WORLD_HEIGHT \<longrightarrow>
         snd (handlePlaceObject s c d newId now) = [])) \<and>
   (BroadcastAll (OBJECT_PLACED placed) \<in> set (snd (handlePlaceObject s c d newId now)) \<longrightarrow>
      (\<forall>e\<in>set (objects s). \<not> objectsOverlap e placed) \<and>
      placed \<in> set (objects (fst (handlePlaceObject s c d newId now))) \<and>
      set (objects (fst (handlePlaceObject s c d newId now))) \<subseteq> insert placed (set (objects s)))"
proof (intro conjI impI)
  assume a: "normalizeObjectData (d\<lparr>raw_id := None, raw_createdAt := None, raw_updatedAt := None\<rparr>)
        newId now = Some ob \<and>
    list_ex (\<lambda>existing. objectsOverlap existing ob) (objects s)"
  note h = handlePlaceObject_overlap[OF conjunct1[OF a] conjunct2[OF a], of c]
  show "fst (handlePlaceObject s c d newId now) = s" by (simp add: h)
  show "\<forall>placed. BroadcastAll (OBJECT_PLACED placed) \<notin> set (snd (handlePlaceObject s c d newId now))"
    by (simp add: h sendError_def)
  show "snd (handlePlaceObject s c d newId now) = []"
    if "authenticated c \<and> 0 \<le> ox ob \<and> ox ob \<le> WORLD_WIDTH \<and> 0 \<le> oy ob \<and> oy ob \<le> WORLD_HEIGHT"
    using that by (simp add: h not_less[symmetric])
next
  assume "BroadcastAll (OBJECT_PLACED placed) \<in> set (snd (handlePlaceObject s c d newId now))"
  from handlePlaceObject_placed[OF this]
  show "\<forall>e\<in>set (objects s). \<not> objectsOverlap e placed"
    "placed \<in> set (objects (fst (handlePlaceObject s c d newId now)))"
    "set (objects (fst (handlePlaceObject s c d newId now))) \<subseteq> insert placed (set (objects s))"
    by simp_all
qed

theorem C7_overlap_rejected_witness:
  "normalizeObjectData
     ((poster_at 1010 990)\<lparr>raw_id := None, raw_createdAt := None, raw_updatedAt := None\<rparr>)
     ''object_2'' 20 = Some (poster ''object_2'' 1010 990 20) \<and>
   list_ex (\<lambda>existing. objectsOverlap existing (poster ''object_2'' 1010 990 20)) (objects gallery) \<and>
   authenticated conn_a \<and>
   0 \<le> ox (poster ''object_2'' 1010 990 20) \<and> ox (poster ''object_2'' 1010 990 20) \<le> WORLD_WIDTH \<and>
   0 \<le> oy (poster ''object_2'' 1010 990 20) \<and> oy (poster ''object_2'' 1010 990 20) \<le> WORLD_HEIGHT \<and>
   fst (handlePlaceObject gallery conn_a (poster_at 1010 990) ''object_2'' 20) = gallery \<and>
   snd (handlePlaceObject gallery conn_a (poster_at 1010 990) ''object_2'' 20) = [] \<and>
   BroadcastAll (OBJECT_PLACED (poster ''object_3'' 2000 1000 30))
     \<in> set (snd (handlePlaceObject gallery conn_a (poster_at 2000 1000) ''object_3'' 30)) \<and>
   list_all (\<lambda>e. \<not> objectsOverlap e (poster ''object_3'' 2000 1000 30)) (objects gallery) \<and>
   poster ''object_3'' 2000 1000 30
     \<in> set (objects (fst (handlePlaceObject gallery conn_a (poster_at 2000 1000) ''object_3'' 30)))"
proof -
  have ov: "list_ex (\<lambda>existing. objectsOverlap existing (poster ''object_2'' 1010 990 20)) (objects gallery)"
    by (simp add: objects_gallery objectsOverlap_def getObjectBounds_def poster_def Let_def)
  have inb: "0 \<le> ox (poster ''object_2'' 1010 990 20)" "ox (poster ''object_2'' 1010 990 20) \<le> WORLD_WIDTH"
    "0 \<le> oy (poster ''object_2'' 1010 990 20)" "oy (poster ''object_2'' 1010 990 20) \<le> WORLD_HEIGHT"
    by (simp_all add: poster_def world_size)
  have nov: "\<not> list_ex (\<lambda>existing. objectsOverlap existing (poster ''object_3'' 2000 1000 30)) (objects gallery)"
    by (simp add: objects_gallery objectsOverlap_def getObjectBounds_def poster_def Let_def)
  have placed: "BroadcastAll (OBJECT_PLACED (poster ''object_3'' 2000 1000 30))
     \<in> set (snd (handlePlaceObject gallery conn_a (poster_at 2000 1000) ''object_3'' 30))"
    unfolding handlePlaceObject_def using nov
    by (simp add: authenticated_conn_a normalize_poster Let_def world_size)
       (simp add: poster_def world_size)
  show ?thesis
    using C7_overlap_rejected[of "poster_at 1010 990" "''object_2''" 20 "poster ''object_2'' 1010 990 20"
        gallery conn_a "poster ''object_3'' 2000 1000 30"]
      C7_overlap_rejected[of "poster_at 2000 1000" "''object_3''" 30 "poster ''object_2'' 1010 990 20"
        gallery conn_a "poster ''object_3'' 2000 1000 30"]
      normalize_poster[of 1010 990 "''object_2''" 20] ov authenticated_conn_a inb placed
    by (simp add: list_all_iff)
qed

section \<open>C4 and C5: the bench\<close>

lemmas bench_defs = handleBenchSit_def handleBenchStand_def handleDisconnect_def authenticated_def
  client_player_def BENCH_X_def BENCH_Y_def BENCH_SEAT_OFFSET_def STAND_OFFSET_def sqrt_gt_iff

lemma players_two_seated:
  "players two_seated =
     [\<lparr>pid = ''player_a'', pname = ''Ann'', character = ''1'', px = 2774, py = 1511, pvx = 0, pvy = 0,
       lastInputSeq = Num 0, lastInput = None, connected = True, lastUpdate = 10,
       hugging = False, hugEndTime = 0, sitting = True\<rparr>,
      \<lparr>pid = ''player_b'', pname = ''Bob'', character = ''1'', px = 2746, py = 1511, pvx = 0, pvy = 0,
       lastInputSeq = Num 0, lastInput = None, connected = True, lastUpdate = 20,
       hugging = False, hugEndTime = 0, sitting = True\<rparr>,
      \<lparr>pid = ''player_c'', pname = ''Cy'', character = ''1'', px = 2710, py = 1511, pvx = 0, pvy = 0,
       lastInputSeq = Num 0, lastInput = None, connected = False, lastUpdate = 0,
       hugging = False, hugEndTime = 0, sitting = False\<rparr>]"
  unfolding two_seated_def bench_start_def bench_saved_def conn_a_def conn_b_def conn0_def conn1_def
    rejoin_as_def
  by (simp add: eval_defs bench_defs)



lemma players_sits_again:
  "players sits_again =
     [\<lparr>pid = ''player_a'', pname = ''Ann'', character = ''1'', px = 2746, py = 1511, pvx = 0, pvy = 0,
       lastInputSeq = Num 0, lastInput = None, connected = True, lastUpdate = 40,
       hugging = False, hugEndTime = 0, sitting = True\<rparr>,
      \<lparr>pid = ''player_b'', pname = ''Bob'', character = ''1'', px = 2746, py = 1511, pvx = 0, pvy = 0,
       lastInputSeq = Num 0, lastInput = None, connected = True, lastUpdate = 20,
       hugging = False, hugEndTime = 0, sitting = True\<rparr>,
      \<lparr>pid = ''player_c'', pname = ''Cy'', character = ''1'', px = 2710, py = 1511, pvx = 0, pvy = 0,
       lastInputSeq = Num 0, lastInput = None, connected = False, lastUpdate = 0,
       hugging = False, hugEndTime = 0, sitting = False\<rparr>]"
  unfolding sits_again_def conn_a_def conn0_def
  by (simp add: run_def players_two_seated bench_defs Map_get_def Let_def)








text \<open>
  Claim C5. \<^verbatim>\<open>handleBenchSit\<close> gives the right-hand seat \<open>BENCH_X + 14\<close> to a requester who
  finds no connected player seated and the left-hand seat \<open>BENCH_X - 14\<close> to one who finds
  one, whichever seat that one occupies. Two players sit down, at \<open>2774\<close> and \<open>2746\<close>; the
  first stands up and sits down again: it finds one player seated and is given \<open>2746\<close>,
  the seat of the other. Both are connected and seated at \<open>(2746, 1511)\<close>.
\<close>

theorem C5_same_seat:
  "px (players two_seated ! 0) = BENCH_X + BENCH_SEAT_OFFSET \<and>
   px (players two_seated ! 1) = BENCH_X - BENCH_SEAT_OFFSET \<and>
   sits_again = run two_seated [Message conn_a BENCH_STAND [] 30, Message conn_a BENCH_SIT [] 40] \<and>
   pid (players sits_again ! 0) \<noteq> pid (players sits_again ! 1) \<and>
   connected (players sits_again ! 0) \<and> sitting (players sits_again ! 0) \<and>
   connected (players sits_again ! 1) \<and> sitting (players sits_again ! 1) \<and>
   px (players sits_again ! 0) = BENCH_X - BENCH_SEAT_OFFSET \<and>
   px (players sits_again ! 1) = BENCH_X - BENCH_SEAT_OFFSET \<and>
   py (players sits_again ! 0) = BENCH_Y \<and> py (players sits_again ! 1) = BENCH_Y \<and>
   length (filter sitting (players sits_again)) = 2"
proof -
  have "sits_again = run two_seated [Message conn_a BENCH_STAND [] 30, Message conn_a BENCH_SIT [] 40]"
    by (rule sits_again_def)
  then show ?thesis
    by (simp add: players_two_seated players_sits_again BENCH_X_def BENCH_Y_def
          BENCH_SEAT_OFFSET_def)
qed

end
